theory Spec2Isabelle
  imports Main "HOL-Library.Word"
begin

section \<open>Errors\<close>

text \<open>
  Go's \<open>int\<close> is a 64-bit two's complement integer on the platforms the tool is built for:
  \<open>+\<close> wraps around, comparisons read the value with \<open>sint\<close>.
\<close>

type_synonym go_int = "64 word"

text \<open>
  Every error value the publish path and the registry metadata backend create or inspect.
  \<open>PathError\<close> (\<open>*fs.PathError\<close>) and \<open>ErrorfW\<close> (\<open>fmt.Errorf\<close> with \<open>%w\<close>) wrap an
  inner error that \<open>errors.Is\<close> and \<open>errors.As\<close> can reach; \<open>ErrorfV\<close> (\<open>fmt.Errorf\<close> with
  \<open>%v\<close>) only prints it, so the chain stops there. \<open>LibError\<close> is any other error of an
  external library.
\<close>

datatype error =
    ErrMetadataNotExist
  | SequenceError (wantSeq: go_int) (gotSeq: go_int)
  | ErrArchiveFileNotFound (filename: string)
  | ErrNotExist
  | TransportError (StatusCode: int)
  | LibError string
  | PathError string string error
  | Errorf string "string list"
  | ErrorfV string "string list" error
  | ErrorfW string "string list" error
  | Aggregate "error list"

text \<open>\<open>errors.Is(err, target)\<close>, used with the sentinels \<open>ErrMetadataNotExist\<close> and \<open>os.ErrNotExist\<close>.\<close>

fun errors_Is :: "error \<Rightarrow> error \<Rightarrow> bool" where
  "errors_Is (PathError op p e) t = (PathError op p e = t \<or> errors_Is e t)"
| "errors_Is (ErrorfW f a e) t = (ErrorfW f a e = t \<or> errors_Is e t)"
| "errors_Is e t = (e = t)"

text \<open>\<open>errors.As(err, &terr)\<close> for \<open>*transport.Error\<close>: the status code of the first one in the chain.\<close>

fun errors_As_transport :: "error \<Rightarrow> int option" where
  "errors_As_transport (TransportError c) = Some c"
| "errors_As_transport (PathError op p e) = errors_As_transport e"
| "errors_As_transport (ErrorfW f a e) = errors_As_transport e"
| "errors_As_transport e = None"

text \<open>\<open>errors.As(err, &aerr)\<close> for \<open>*ErrArchiveFileNotFound\<close>.\<close>

fun errors_As_ArchiveFileNotFound :: "error \<Rightarrow> bool" where
  "errors_As_ArchiveFileNotFound (ErrArchiveFileNotFound f) = True"
| "errors_As_ArchiveFileNotFound (PathError op p e) = errors_As_ArchiveFileNotFound e"
| "errors_As_ArchiveFileNotFound (ErrorfW f a e) = errors_As_ArchiveFileNotFound e"
| "errors_As_ArchiveFileNotFound e = False"

text \<open>
  \<open>utilerrors.NewAggregate\<close>: \<open>nil\<close> for an empty list, the aggregate otherwise (the lists built
  here never hold a \<open>nil\<close> entry).
\<close>

definition NewAggregate :: "error list \<Rightarrow> error option" where
  "NewAggregate errlist = (if errlist = [] then None else Some (Aggregate errlist))"


section \<open>Data model\<close>

text \<open>
  \<open>v1alpha2.Association\<close>, with the fields the tests of the association builder spell out.
  \<open>ImageType\<close> is an integer enumeration.
\<close>

type_synonym ImageType = int

record Association =
  Name :: string
  Path :: string
  TagSymlink :: string
  ID :: string
  Type :: ImageType
  ManifestDigests :: "string list"
  LayerDigests :: "string list"

text \<open>\<open>v1alpha2.PastMirror\<close> and \<open>v1alpha2.Metadata\<close>: the fields that \<open>Publish\<close> reads.\<close>

record PastMirror =
  Sequence :: go_int
  Associations :: "Association list"

record Metadata =
  Uid :: string
  SingleUse :: bool
  PastMirror :: PastMirror
  PastAssociations :: "Association list"

text \<open>
  \<open>reference.DockerImageReference\<close> and \<open>imagesource.TypedImageReference\<close>. The fields
  \<open>Name\<close>, \<open>ID\<close> and \<open>Type\<close> carry the prefix \<open>Ref\<close> here, since an association has
  fields of the same names.
\<close>

record DockerImageReference =
  Registry :: string
  Namespace :: string
  RefName :: string
  Tag :: string
  RefID :: string

datatype DestinationType = DestinationUnset | DestinationRegistry | DestinationFile | DestinationS3

record TypedImageReference =
  RefType :: DestinationType
  Ref :: DockerImageReference

text \<open>The zero values \<open>reference.DockerImageReference{}\<close> and \<open>imagesource.TypedImageReference{}\<close>.\<close>

definition zero_DockerImageReference :: DockerImageReference where
  "zero_DockerImageReference =
     \<lparr>Registry = [], Namespace = [], RefName = [], Tag = [], RefID = []\<rparr>"

definition zero_TypedImageReference :: TypedImageReference where
  "zero_TypedImageReference = \<lparr>RefType = DestinationUnset, Ref = zero_DockerImageReference\<rparr>"

text \<open>
  \<open>image.TypedImage\<close> is a typed reference with a category, \<open>image.TypedImageMapping\<close> a Go map
  from source to destination, and \<open>imgmirror.Mapping\<close> one source-destination pair of the mirror
  library.
\<close>

record TypedImage =
  TypedImageReference :: TypedImageReference
  Category :: ImageType

type_synonym TypedImageMapping = "TypedImage \<rightharpoonup> TypedImage"

record Mapping =
  MappingName :: string
  Source :: TypedImageReference
  Destination :: TypedImageReference

text \<open>
  \<open>image.Associations\<close> and \<open>image.AssociationSet\<close> are Go maps keyed by strings. They are
  association lists here: the order of the list is the order in which a \<open>range\<close> loop visits
  the map, which Go leaves open.
\<close>

type_synonym Associations = "(string \<times> Association) list"
type_synonym AssociationSet = "(string \<times> Associations) list"

text \<open>The fields of \<open>MirrorOptions\<close> that the publish path reads.\<close>

record MirrorOptions =
  From :: string
  ToMirror :: string
  UserNamespace :: string
  OutputDir :: string
  Dir :: string
  DestPlainHTTP :: bool
  DestSkipTLS :: bool
  DryRun :: bool
  SkipMissing :: bool
  ContinueOnError :: bool
  SkipVerification :: bool
  SkipCleanup :: bool

section \<open>The sequence guard of Publish\<close>

text \<open>
  Lines 144 to 164 of \<open>publish.go\<close>: the \<open>switch\<close> on the error of \<open>backend.ReadMetadata\<close>.
  The argument is what \<open>ReadMetadata\<close> gave: an error, or the current metadata. \<open>None\<close>
  means that \<open>Publish\<close> goes on past the guard, \<open>Some err\<close> that it returns \<open>err\<close>.
\<close>

definition sequence_guard :: "error + Metadata \<Rightarrow> Metadata \<Rightarrow> error option" where
  "sequence_guard current incomingMeta =
     (case current of
        Inl err \<Rightarrow>
          if \<not> errors_Is err ErrMetadataNotExist then Some err
          else
            (let incomingRun = PastMirror incomingMeta
             in if Sequence incomingRun \<noteq> 1
                then Some (SequenceError 1 (Sequence incomingRun))
                else None)
      | Inr currentMeta \<Rightarrow>
          (let currRun = PastMirror currentMeta;
               incomingRun = PastMirror incomingMeta
           in if Sequence incomingRun \<noteq> Sequence currRun + 1
              then Some (SequenceError (Sequence currRun + 1) (Sequence incomingRun))
              else None))"


section \<open>Paths\<close>

text \<open>\<open>strings.Split(s, "/")\<close> and \<open>strings.Join(elems, "/")\<close>.\<close>

fun split_sep :: "string \<Rightarrow> string list" where
  "split_sep [] = [[]]"
| "split_sep (c # cs) =
     (if c = CHR ''/'' then [] # split_sep cs
      else (case split_sep cs of
              [] \<Rightarrow> [[c]]
            | x # xs \<Rightarrow> (c # x) # xs))"

fun join_sep :: "string list \<Rightarrow> string" where
  "join_sep [] = []"
| "join_sep [x] = x"
| "join_sep (x # y # ys) = x @ CHR ''/'' # join_sep (y # ys)"

text \<open>
  The element loop of Go's \<open>Clean\<close>: empty elements and \<open>.\<close> are dropped, \<open>..\<close> removes the
  element before it, is dropped at the root, and is kept at the front of a relative path.
  \<open>out\<close> holds the elements kept so far, the last one first.
\<close>

fun clean_elems :: "bool \<Rightarrow> string list \<Rightarrow> string list \<Rightarrow> string list" where
  "clean_elems rooted out [] = rev out"
| "clean_elems rooted out (e # es) =
     (if e = [] \<or> e = ''.'' then clean_elems rooted out es
      else if e = ''..'' then
        (case out of
           [] \<Rightarrow> if rooted then clean_elems rooted [] es else clean_elems rooted [''..''] es
         | t # ts \<Rightarrow>
             if t = ''..'' then clean_elems rooted (''..'' # out) es
             else clean_elems rooted ts es)
      else clean_elems rooted (e # out) es)"

text \<open>\<open>filepath.Clean\<close> and \<open>path.Clean\<close> (the separator is \<open>/\<close> for both on Unix).\<close>

definition filepath_Clean :: "string \<Rightarrow> string" where
  "filepath_Clean p =
     (if p = [] then ''.''
      else
        (let rooted = (hd p = CHR ''/'');
             out = clean_elems rooted [] (split_sep p)
         in if rooted then CHR ''/'' # join_sep out
            else if out = [] then ''.''
            else join_sep out))"

text \<open>
  \<open>filepath.Join\<close> and \<open>path.Join\<close>: the elements from the first non-empty one on are joined
  with the separator and the result is cleaned; with no non-empty element the result is empty.
\<close>

definition filepath_Join :: "string list \<Rightarrow> string" where
  "filepath_Join elem =
     (case dropWhile (\<lambda>e. e = []) elem of
        [] \<Rightarrow> []
      | e # es \<Rightarrow> filepath_Clean (join_sep (e # es)))"

definition path_Join :: "string list \<Rightarrow> string" where
  "path_Join elem = filepath_Join elem"

text \<open>\<open>filepath.Dir\<close>, \<open>filepath.Base\<close> and \<open>filepath.Ext\<close>.\<close>

definition filepath_Dir :: "string \<Rightarrow> string" where
  "filepath_Dir p = filepath_Clean (rev (dropWhile (\<lambda>c. c \<noteq> CHR ''/'') (rev p)))"

definition filepath_Base :: "string \<Rightarrow> string" where
  "filepath_Base p =
     (if p = [] then ''.''
      else
        (let q = rev (dropWhile (\<lambda>c. c = CHR ''/'') (rev p))
         in if q = [] then ''/''
            else rev (takeWhile (\<lambda>c. c \<noteq> CHR ''/'') (rev q))))"

definition filepath_Ext :: "string \<Rightarrow> string" where
  "filepath_Ext p =
     (let last_elem = rev (takeWhile (\<lambda>c. c \<noteq> CHR ''/'') (rev p))
      in if CHR ''.'' \<in> set last_elem
         then CHR ''.'' # rev (takeWhile (\<lambda>c. c \<noteq> CHR ''.'') (rev last_elem))
         else [])"

text \<open>\<open>strings.HasPrefix\<close> and \<open>strings.TrimPrefix\<close>.\<close>

definition HasPrefix :: "string \<Rightarrow> string \<Rightarrow> bool" where
  "HasPrefix s pre = (take (length pre) s = pre)"

definition TrimPrefix :: "string \<Rightarrow> string \<Rightarrow> string" where
  "TrimPrefix s pre = (if HasPrefix s pre then drop (length pre) s else s)"

section \<open>The world outside the program\<close>

text \<open>
  The file system is a list of paths with what is stored there: a file with its bytes, a
  directory, or a tar archive with its entries. A directory also exists when some entry lies
  below it. The registry side of the world holds the metadata images, each with the files of
  its single layer.
\<close>

datatype node = File string | Directory | Archive "(string \<times> node) list"

type_synonym filesystem = "(string \<times> node) list"

definition fs_exists :: "filesystem \<Rightarrow> string \<Rightarrow> bool" where
  "fs_exists files p =
     list_ex (\<lambda>e. fst e = p \<or> HasPrefix (fst e) (p @ ''/'')) files"

definition fs_write :: "string \<Rightarrow> node \<Rightarrow> filesystem \<Rightarrow> filesystem" where
  "fs_write p n files = (p, n) # filter (\<lambda>e. fst e \<noteq> p) files"

definition fs_remove_all :: "string \<Rightarrow> filesystem \<Rightarrow> filesystem" where
  "fs_remove_all p files =
     filter (\<lambda>e. fst e \<noteq> p \<and> \<not> HasPrefix (fst e) (p @ ''/'')) files"

text \<open>
  What the run leaves behind besides files: the calls to the metadata backend and to the
  mirror library, in order.
\<close>

datatype event =
    EvReadMetadata
  | EvWriteMetadata
  | EvCleanup
  | EvPublishImage "Mapping list" string

record world =
  fs :: filesystem
  images :: "string \<rightharpoonup> (string \<times> node) list"
  log :: "event list"
  ntemp :: nat

text \<open>
  Every call that leaves the program and can fail. The environment decides, call by call,
  whether it fails and with which error.
\<close>

datatype call =
    CallCreateResultsDir
  | CallTempDir string
  | CallReadImageSet string
  | CallOsStat string
  | CallWalkVisit string
  | CallUnarchive string string
  | CallExtract string string string
  | CallNewLocalBackend string
  | CallReadFile string
  | CallWriteFile string
  | CallGetWriter string
  | CallChmod string
  | CallRemoveAll string
  | CallRemove string
  | CallReadAll
  | CallCraneManifest string
  | CallCranePull string
  | CallCraneExport string
  | CallCranePush string
  | CallCraneDelete string
  | CallNameParseReference string bool
  | CallCheckPushPermission string
  | CallConvertToAssociationSet "Association list"
  | CallUpdatePath AssociationSet
  | CallNewContext bool
  | CallRepositoryForRef DockerImageReference bool
  | CallDigestParse string
  | CallBlobOpen DockerImageReference string
  | CallMkdirAll string
  | CallOpenFile string
  | CallCopy string
  | CallSeek string
  | CallMirrorValidate "Mapping list"
  | CallMirrorRun "Mapping list" string
  | CallUnpackReleaseSignatures
  | CallUnpackCatalog
  | CallRebuildCatalogs
  | CallUnpackRelease
  | CallBuildGraphImage

text \<open>
  The environment: the faults, the functions of external libraries whose results the program
  only passes on, the constants of package \<open>config\<close>, and the results of the parts of this
  repository that build catalog and graph images.
\<close>

record env =
  fault :: "call \<Rightarrow> error option"
  ParseReference :: "string \<Rightarrow> TypedImageReference \<times> error option"
  Exact :: "DockerImageReference \<Rightarrow> string"
  RefString :: "DockerImageReference \<Rightarrow> string"
  TempDirName :: "string \<Rightarrow> nat \<Rightarrow> string"
  ResultsDirName :: string
  ImageSetIndex :: "string \<Rightarrow> (string \<rightharpoonup> string)"
  AssociationSetOf :: "Association list \<Rightarrow> AssociationSet"
  UpdatedPath :: "AssociationSet \<Rightarrow> AssociationSet"
  MissingLayersOrder :: "(string \<times> string list) list \<Rightarrow> (string \<times> string list) list"
  json_Marshal :: "Metadata \<Rightarrow> error + string"
  json_Unmarshal :: "string \<Rightarrow> error + Metadata"
  newMetadataImage :: "MirrorOptions \<Rightarrow> string \<Rightarrow> string"
  Blob :: "DockerImageReference \<Rightarrow> string \<Rightarrow> string"
  MetadataBasePath :: string
  HelmDir :: string
  BlobDir :: string
  V2Dir :: string
  ArchiverString :: string
  CatalogFound :: bool
  CatalogRefs :: TypedImageMapping
  ReleaseFound :: bool
  GraphRef :: TypedImageMapping

text \<open>\<open>os.Stat\<close>: a fault of the environment, or \<open>os.ErrNotExist\<close> inside a path error.\<close>

definition os_Stat :: "env \<Rightarrow> string \<Rightarrow> world \<Rightarrow> error option" where
  "os_Stat E p w =
     (case fault E (CallOsStat p) of
        Some err \<Rightarrow> Some err
      | None \<Rightarrow>
          if fs_exists (fs w) p then None
          else Some (PathError ''stat'' p ErrNotExist))"

text \<open>
  \<open>ioutil.TempDir(dir, "images.*")\<close> as \<open>mktempDir\<close> calls it: a fresh directory below \<open>dir\<close>.
  The function that \<open>mktempDir\<close> returns for the cleanup is \<open>os.RemoveAll\<close> on that directory.
\<close>

definition mktempDir :: "env \<Rightarrow> string \<Rightarrow> world \<Rightarrow> (error + string) \<times> world" where
  "mktempDir E d w =
     (case fault E (CallTempDir d) of
        Some err \<Rightarrow> (Inl err, w)
      | None \<Rightarrow>
          (let name = TempDirName E d (ntemp w)
           in (Inr name, w\<lparr>fs := fs_write name Directory (fs w), ntemp := Suc (ntemp w)\<rparr>)))"

definition os_RemoveAll :: "string \<Rightarrow> world \<Rightarrow> world" where
  "os_RemoveAll d w = w\<lparr>fs := fs_remove_all d (fs w)\<rparr>"


section \<open>Archives\<close>

definition write_entries :: "string \<Rightarrow> (string \<times> node) list \<Rightarrow> filesystem \<Rightarrow> filesystem" where
  "write_entries dest entries files =
     fold (\<lambda>e f. fs_write (filepath_Join [dest, fst e]) (snd e) f) entries files"

definition below :: "string \<Rightarrow> string \<Rightarrow> bool" where
  "below name d = (name = d \<or> HasPrefix name (d @ ''/''))"

text \<open>
  Modelled from the spec: the archiver of package \<open>archive\<close> is not among the sources.
  \<open>Extract(logicalPath, destDir)\<close> "extracts one named entry from its owning tar into
  \<open>destDir\<close>, preserving the relative path"; a directory goes with what lies below it, and a
  name that the tar does not hold leaves the destination as it was, which is why \<open>unpack\<close>
  looks at the destination afterwards.
\<close>

definition archive_Extract ::
  "env \<Rightarrow> string \<Rightarrow> string \<Rightarrow> string \<Rightarrow> world \<Rightarrow> error option \<times> world" where
  "archive_Extract E archivePath target dest w =
     (case fault E (CallExtract archivePath target dest) of
        Some err \<Rightarrow> (Some err, w)
      | None \<Rightarrow>
          (case map_of (fs w) archivePath of
             Some (Archive entries) \<Rightarrow>
               (None, w\<lparr>fs := write_entries dest
                                (filter (\<lambda>e. below (fst e) target) entries) (fs w)\<rparr>)
           | Some (File data) \<Rightarrow> (Some (LibError ''archive format not recognized''), w)
           | Some Directory \<Rightarrow> (Some (LibError ''archive format not recognized''), w)
           | None \<Rightarrow> (Some (PathError ''open'' archivePath ErrNotExist), w)))"

text \<open>
  Modelled from the spec: \<open>archive.Unarchive\<close> is not among the sources. "The Reader MUST
  support an exclude set specified by directory prefix": every entry outside the excluded
  directories is written below the destination.
\<close>

definition archive_Unarchive ::
  "env \<Rightarrow> string \<Rightarrow> string \<Rightarrow> string list \<Rightarrow> world \<Rightarrow> error option \<times> world" where
  "archive_Unarchive E archivePath dest exclude w =
     (case fault E (CallUnarchive archivePath dest) of
        Some err \<Rightarrow> (Some err, w)
      | None \<Rightarrow>
          (case map_of (fs w) archivePath of
             Some (Archive entries) \<Rightarrow>
               (None, w\<lparr>fs := write_entries dest
                                (filter (\<lambda>e. \<not> list_ex (below (fst e)) exclude) entries)
                                (fs w)\<rparr>)
           | Some (File data) \<Rightarrow> (Some (LibError ''archive format not recognized''), w)
           | Some Directory \<Rightarrow> (Some (LibError ''archive format not recognized''), w)
           | None \<Rightarrow> (Some (PathError ''open'' archivePath ErrNotExist), w)))"

section \<open>The local directory backend\<close>

text \<open>What \<open>WriteObject\<close> can be given: bytes, a string, a reader with its content, or metadata.\<close>

datatype object = ObjBytes string | ObjString string | ObjReader string | ObjMetadata Metadata

record localDirBackend =
  dir :: string

text \<open>
  Modelled from the spec: \<open>NewLocalBackend\<close> and the methods of \<open>localDirBackend\<close> are not
  among the sources. The local backend is "rooted at a directory; paths are file paths".
\<close>

definition NewLocalBackend :: "env \<Rightarrow> string \<Rightarrow> error + localDirBackend" where
  "NewLocalBackend E d =
     (case fault E (CallNewLocalBackend d) of
        Some err \<Rightarrow> Inl err
      | None \<Rightarrow> Inr \<lparr>dir = d\<rparr>)"

text \<open>
  Modelled from the spec: \<open>localDirBackend.ReadMetadata\<close> "is JSON-decode of a file;
  \<open>ErrMetadataNotExist\<close> maps to the file does not exist condition".
\<close>

definition localDirBackend_ReadMetadata ::
  "env \<Rightarrow> localDirBackend \<Rightarrow> string \<Rightarrow> world \<Rightarrow> error + Metadata" where
  "localDirBackend_ReadMetadata E b path w =
     (let p = filepath_Join [dir b, path]
      in case fault E (CallReadFile p) of
           Some err \<Rightarrow> Inl err
         | None \<Rightarrow>
             (case map_of (fs w) p of
                Some (File data) \<Rightarrow> json_Unmarshal E data
              | Some Directory \<Rightarrow> Inl (PathError ''read'' p (LibError ''is a directory''))
              | Some (Archive entries) \<Rightarrow> Inl (LibError ''invalid character'')
              | None \<Rightarrow> Inl ErrMetadataNotExist))"

text \<open>
  Modelled from the spec: \<open>localDirBackend.WriteObject\<close> stores "free-form artifacts at
  relative paths"; metadata is stored as "a JSON file". A reader is read to its end.
\<close>

definition object_data :: "env \<Rightarrow> object \<Rightarrow> error + string" where
  "object_data E obj =
     (case obj of
        ObjBytes v \<Rightarrow> Inr v
      | ObjString v \<Rightarrow> Inr v
      | ObjReader v \<Rightarrow>
          (case fault E CallReadAll of Some err \<Rightarrow> Inl err | None \<Rightarrow> Inr v)
      | ObjMetadata m \<Rightarrow> json_Marshal E m)"

definition localDirBackend_WriteObject ::
  "env \<Rightarrow> localDirBackend \<Rightarrow> string \<Rightarrow> object \<Rightarrow> world \<Rightarrow> error option \<times> world" where
  "localDirBackend_WriteObject E b fpath obj w =
     (let p = filepath_Join [dir b, fpath]
      in case object_data E obj of
           Inl err \<Rightarrow> (Some err, w)
         | Inr data \<Rightarrow>
             (case fault E (CallWriteFile p) of
                Some err \<Rightarrow> (Some err, w)
              | None \<Rightarrow> (None, w\<lparr>fs := fs_write p (File data) (fs w)\<rparr>)))"

definition localDirBackend_WriteMetadata ::
  "env \<Rightarrow> localDirBackend \<Rightarrow> Metadata \<Rightarrow> string \<Rightarrow> world \<Rightarrow> error option \<times> world" where
  "localDirBackend_WriteMetadata E b meta path w =
     localDirBackend_WriteObject E b path (ObjMetadata meta) w"

text \<open>
  Modelled from the spec: \<open>localDirBackend.GetWriter\<close> "returns an os.File as a writer" (the
  comment in the registry backend): the file is there, empty, after the call.
\<close>

definition localDirBackend_GetWriter ::
  "env \<Rightarrow> localDirBackend \<Rightarrow> string \<Rightarrow> world \<Rightarrow> error option \<times> world" where
  "localDirBackend_GetWriter E b fpath w =
     (let p = filepath_Join [dir b, fpath]
      in case fault E (CallGetWriter p) of
           Some err \<Rightarrow> (Some err, w)
         | None \<Rightarrow> (None, w\<lparr>fs := fs_write p (File []) (fs w)\<rparr>))"

text \<open>
  Modelled from the spec: \<open>localDirBackend.Cleanup\<close> "removes the metadata file" (scenario S6).
\<close>

definition localDirBackend_Cleanup ::
  "env \<Rightarrow> localDirBackend \<Rightarrow> string \<Rightarrow> world \<Rightarrow> error option \<times> world" where
  "localDirBackend_Cleanup E b fpath w =
     (let p = filepath_Join [dir b, fpath]
      in case fault E (CallRemoveAll p) of
           Some err \<Rightarrow> (Some err, w)
         | None \<Rightarrow> (None, os_RemoveAll p w))"

text \<open>
  Modelled from the spec: the file system of the local backend (\<open>b.localDirBackend.fs\<close>) is
  rooted at the directory of the backend; \<open>Remove\<close> deletes one file, \<open>Chmod\<close> needs it to
  exist.
\<close>

definition localDirBackend_fs_Remove ::
  "env \<Rightarrow> localDirBackend \<Rightarrow> string \<Rightarrow> world \<Rightarrow> error option \<times> world" where
  "localDirBackend_fs_Remove E b name w =
     (let p = filepath_Join [dir b, name]
      in case fault E (CallRemove p) of
           Some err \<Rightarrow> (Some err, w)
         | None \<Rightarrow>
             if map_of (fs w) p = None then (Some (PathError ''remove'' p ErrNotExist), w)
             else (None, w\<lparr>fs := filter (\<lambda>e. fst e \<noteq> p) (fs w)\<rparr>))"

definition localDirBackend_fs_Chmod ::
  "env \<Rightarrow> localDirBackend \<Rightarrow> string \<Rightarrow> world \<Rightarrow> error option" where
  "localDirBackend_fs_Chmod E b name w =
     (let p = filepath_Join [dir b, name]
      in case fault E (CallChmod p) of
           Some err \<Rightarrow> Some err
         | None \<Rightarrow>
             if fs_exists (fs w) p then None
             else Some (PathError ''chmod'' p ErrNotExist))"

section \<open>The registry backend\<close>

record RegistryConfig =
  ImageURL :: string
  SkipTLS :: bool

record registryBackend =
  localDirBackend :: localDirBackend
  src :: TypedImageReference
  insecure :: bool

text \<open>
  The calls to \<open>crane\<close>. The registry answers a request for an image that it does not hold
  with status 404; \<open>crane.Image\<close> builds an image with one layer that holds the given files,
  \<open>crane.Export\<close> writes the files of an image as a tar to the writer it is given.
\<close>

definition crane_Manifest :: "env \<Rightarrow> string \<Rightarrow> world \<Rightarrow> error option" where
  "crane_Manifest E r w =
     (case fault E (CallCraneManifest r) of
        Some err \<Rightarrow> Some err
      | None \<Rightarrow> if images w r = None then Some (TransportError 404) else None)"

definition crane_Pull :: "env \<Rightarrow> string \<Rightarrow> world \<Rightarrow> error + (string \<times> node) list" where
  "crane_Pull E r w =
     (case fault E (CallCranePull r) of
        Some err \<Rightarrow> Inl err
      | None \<Rightarrow>
          (case images w r of
             None \<Rightarrow> Inl (TransportError 404)
           | Some img \<Rightarrow> Inr img))"

definition crane_Image :: "(string \<times> string) list \<Rightarrow> (string \<times> node) list" where
  "crane_Image contents = map (\<lambda>e. (fst e, File (snd e))) contents"

definition crane_Push ::
  "env \<Rightarrow> (string \<times> node) list \<Rightarrow> string \<Rightarrow> world \<Rightarrow> error option \<times> world" where
  "crane_Push E img r w =
     (case fault E (CallCranePush r) of
        Some err \<Rightarrow> (Some err, w)
      | None \<Rightarrow> (None, w\<lparr>images := (images w)(r \<mapsto> img)\<rparr>))"

definition crane_Delete :: "env \<Rightarrow> string \<Rightarrow> world \<Rightarrow> error option \<times> world" where
  "crane_Delete E r w =
     (case fault E (CallCraneDelete r) of
        Some err \<Rightarrow> (Some err, w)
      | None \<Rightarrow>
          if images w r = None then (Some (TransportError 404), w)
          else (None, w\<lparr>images := (images w)(r := None)\<rparr>))"

definition crane_Export ::
  "env \<Rightarrow> (string \<times> node) list \<Rightarrow> string \<Rightarrow> world \<Rightarrow> error option \<times> world" where
  "crane_Export E img writer w =
     (case fault E (CallCraneExport writer) of
        Some err \<Rightarrow> (Some err, w)
      | None \<Rightarrow> (None, w\<lparr>fs := fs_write writer (Archive img) (fs w)\<rparr>))"

text \<open>\<open>archiver.Tar.Unarchive\<close> with \<open>OverwriteExisting\<close> and \<open>MkdirAll\<close> set.\<close>

definition Tar_Unarchive :: "env \<Rightarrow> string \<Rightarrow> string \<Rightarrow> world \<Rightarrow> error option \<times> world" where
  "Tar_Unarchive E source destination w = archive_Unarchive E source destination [] w"

text \<open>\<open>NewRegistryBackend\<close>, lines 40 to 63 of \<open>registry.go\<close>.\<close>

definition NewRegistryBackend :: "env \<Rightarrow> RegistryConfig \<Rightarrow> string \<Rightarrow> error + registryBackend" where
  "NewRegistryBackend E cfg d =
     (let (ref, err) = ParseReference E (ImageURL cfg)
      in case err of
           Some e \<Rightarrow> Inl e
         | None \<Rightarrow>
             (let ref' = (if length (Tag (Ref ref)) = 0
                          then ref\<lparr>Ref := (Ref ref)\<lparr>Tag := ''latest''\<rparr>\<rparr>
                          else ref)
              in case NewLocalBackend E d of
                   Inl e \<Rightarrow>
                     Inl (ErrorfW ''error creating local backend for registry: %w'' [] e)
                 | Inr lb \<Rightarrow>
                     Inr \<lparr>localDirBackend = lb, src = ref', insecure = SkipTLS cfg\<rparr>))"

text \<open>\<open>registryBackend.exists\<close>, lines 202 to 228.\<close>

definition registryBackend_exists :: "env \<Rightarrow> registryBackend \<Rightarrow> world \<Rightarrow> error option" where
  "registryBackend_exists E b w =
     (case crane_Manifest E (Exact E (Ref (src b))) w of
        None \<Rightarrow> None
      | Some err \<Rightarrow>
          if errors_As_transport err = Some 404 then Some ErrMetadataNotExist
          else if errors_As_transport err = Some 401 then
            (case fault E (CallNameParseReference (Exact E (Ref (src b))) (insecure b)) of
               Some perr \<Rightarrow> Some perr
             | None \<Rightarrow>
                 (case fault E (CallCheckPushPermission (Exact E (Ref (src b)))) of
                    Some cerr \<Rightarrow> Some cerr
                  | None \<Rightarrow> Some ErrMetadataNotExist))
          else Some err)"

text \<open>\<open>registryBackend.GetWriter\<close>, lines 117 to 119.\<close>

definition registryBackend_GetWriter ::
  "env \<Rightarrow> registryBackend \<Rightarrow> string \<Rightarrow> world \<Rightarrow> error option \<times> world" where
  "registryBackend_GetWriter E b fpath w =
     localDirBackend_GetWriter E (localDirBackend b) fpath w"

text \<open>
  \<open>registryBackend.unpack\<close>, lines 134 to 161. The deferred \<open>Remove\<close> of the tar file runs
  once the writer is there, whatever the later steps give, and its error is dropped.
\<close>

definition registryBackend_unpack ::
  "env \<Rightarrow> registryBackend \<Rightarrow> string \<Rightarrow> world \<Rightarrow> error option \<times> world" where
  "registryBackend_unpack E b fpath w =
     (let tempTar = RefName (Ref (src b)) @ ''.tar''
      in case crane_Pull E (Exact E (Ref (src b))) w of
           Inl err \<Rightarrow> (Some err, w)
         | Inr img \<Rightarrow>
             (case registryBackend_GetWriter E b tempTar w of
                (Some err, w1) \<Rightarrow> (Some err, w1)
              | (None, w1) \<Rightarrow>
                  (let (r, w4) =
                         (case crane_Export E img
                                 (filepath_Join [dir (localDirBackend b), tempTar]) w1 of
                            (Some err, w2) \<Rightarrow> (Some err, w2)
                          | (None, w2) \<Rightarrow>
                              (case Tar_Unarchive E
                                      (filepath_Join [dir (localDirBackend b), tempTar])
                                      (dir (localDirBackend b)) w2 of
                                 (Some err, w3) \<Rightarrow> (Some err, w3)
                               | (None, w3) \<Rightarrow>
                                   (localDirBackend_fs_Chmod E (localDirBackend b) fpath w3,
                                    w3)))
                   in (r, snd (localDirBackend_fs_Remove E (localDirBackend b) tempTar w4)))))"

text \<open>\<open>registryBackend.ReadMetadata\<close>, lines 66 to 76.\<close>

definition registryBackend_ReadMetadata ::
  "env \<Rightarrow> registryBackend \<Rightarrow> string \<Rightarrow> world \<Rightarrow> (error + Metadata) \<times> world" where
  "registryBackend_ReadMetadata E b path w =
     (case registryBackend_exists E b w of
        Some err \<Rightarrow> (Inl err, w)
      | None \<Rightarrow>
          (case registryBackend_unpack E b path w of
             (Some err, w1) \<Rightarrow> (Inl err, w1)
           | (None, w1) \<Rightarrow>
               (localDirBackend_ReadMetadata E (localDirBackend b) path w1, w1)))"

text \<open>\<open>registryBackend.pushImage\<close>, lines 192 to 199.\<close>

definition registryBackend_pushImage ::
  "env \<Rightarrow> registryBackend \<Rightarrow> string \<Rightarrow> string \<Rightarrow> world \<Rightarrow> error option \<times> world" where
  "registryBackend_pushImage E b data fpath w =
     (let contents = [(fpath, data)];
          i = crane_Image contents
      in crane_Push E i (Exact E (Ref (src b))) w)"

text \<open>
  \<open>registryBackend.WriteObject\<close>, lines 91 to 113. A reader has been read to its end by the
  time the local backend gets it.
\<close>

definition registryBackend_WriteObject ::
  "env \<Rightarrow> registryBackend \<Rightarrow> string \<Rightarrow> object \<Rightarrow> world \<Rightarrow> error option \<times> world" where
  "registryBackend_WriteObject E b fpath obj w =
     (case object_data E obj of
        Inl err \<Rightarrow> (Some err, w)
      | Inr data \<Rightarrow>
          (case localDirBackend_WriteObject E (localDirBackend b) fpath
                  (case obj of ObjReader v \<Rightarrow> ObjReader [] | _ \<Rightarrow> obj) w of
             (Some err, w1) \<Rightarrow> (Some err, w1)
           | (None, w1) \<Rightarrow> registryBackend_pushImage E b data fpath w1))"

text \<open>\<open>registryBackend.WriteMetadata\<close>, lines 79 to 81.\<close>

definition registryBackend_WriteMetadata ::
  "env \<Rightarrow> registryBackend \<Rightarrow> Metadata \<Rightarrow> string \<Rightarrow> world \<Rightarrow> error option \<times> world" where
  "registryBackend_WriteMetadata E b meta path w =
     registryBackend_WriteObject E b path (ObjMetadata meta) w"

text \<open>\<open>registryBackend.Cleanup\<close>, lines 174 to 180.\<close>

definition registryBackend_Cleanup ::
  "env \<Rightarrow> registryBackend \<Rightarrow> string \<Rightarrow> world \<Rightarrow> error option \<times> world" where
  "registryBackend_Cleanup E b fpath w =
     (case crane_Delete E (Exact E (Ref (src b))) w of
        (Some err, w1) \<Rightarrow> (Some err, w1)
      | (None, w1) \<Rightarrow> localDirBackend_Cleanup E (localDirBackend b) fpath w1)"

section \<open>The backend interface\<close>

datatype Backend = LocalBackend localDirBackend | RegistryBackend registryBackend

record StorageConfig =
  RegistryCfg :: "RegistryConfig option"
  LocalCfg :: "string option"

text \<open>
  Modelled from the spec: \<open>storage.ByConfig\<close> is not among the sources. The metadata store is
  "polymorphic over two backends: local-directory and registry-image"; the configuration
  names the one to build.
\<close>

definition ByConfig :: "env \<Rightarrow> string \<Rightarrow> StorageConfig \<Rightarrow> error + Backend" where
  "ByConfig E d cfg =
     (case RegistryCfg cfg of
        Some rc \<Rightarrow>
          (case NewRegistryBackend E rc d of
             Inl err \<Rightarrow> Inl err
           | Inr b \<Rightarrow> Inr (RegistryBackend b))
      | None \<Rightarrow>
          (case LocalCfg cfg of
             Some p \<Rightarrow>
               (case NewLocalBackend E p of
                  Inl err \<Rightarrow> Inl err
                | Inr b \<Rightarrow> Inr (LocalBackend b))
           | None \<Rightarrow> Inl (Errorf ''no storage backend configured'' [])))"

text \<open>The three methods of \<open>storage.Backend\<close> that \<open>Publish\<close> calls; each call is logged.\<close>

definition Backend_ReadMetadata ::
  "env \<Rightarrow> Backend \<Rightarrow> string \<Rightarrow> world \<Rightarrow> (error + Metadata) \<times> world" where
  "Backend_ReadMetadata E backend path w =
     (let w0 = w\<lparr>log := log w @ [EvReadMetadata]\<rparr>
      in case backend of
           LocalBackend b \<Rightarrow> (localDirBackend_ReadMetadata E b path w0, w0)
         | RegistryBackend b \<Rightarrow> registryBackend_ReadMetadata E b path w0)"

definition Backend_WriteMetadata ::
  "env \<Rightarrow> Backend \<Rightarrow> Metadata \<Rightarrow> string \<Rightarrow> world \<Rightarrow> error option \<times> world" where
  "Backend_WriteMetadata E backend meta path w =
     (let w0 = w\<lparr>log := log w @ [EvWriteMetadata]\<rparr>
      in case backend of
           LocalBackend b \<Rightarrow> localDirBackend_WriteMetadata E b meta path w0
         | RegistryBackend b \<Rightarrow> registryBackend_WriteMetadata E b meta path w0)"

definition Backend_Cleanup ::
  "env \<Rightarrow> Backend \<Rightarrow> string \<Rightarrow> world \<Rightarrow> error option \<times> world" where
  "Backend_Cleanup E backend fpath w =
     (let w0 = w\<lparr>log := log w @ [EvCleanup]\<rparr>
      in case backend of
           LocalBackend b \<Rightarrow> localDirBackend_Cleanup E b fpath w0
         | RegistryBackend b \<Rightarrow> registryBackend_Cleanup E b fpath w0)"


section \<open>Association sets and image mappings\<close>

text \<open>
  Modelled from the spec: the methods of \<open>image.AssociationSet\<close> are not among the sources.
  "\<open>Keys()\<close> returns all top-level image keys; \<open>Search(key)\<close> returns the associations for
  one key; \<open>ContainsKey(topKey, childKey)\<close> checks membership."
\<close>

definition AssociationSet_Keys :: "AssociationSet \<Rightarrow> string list" where
  "AssociationSet_Keys as = map fst as"

definition AssociationSet_Search :: "AssociationSet \<Rightarrow> string \<Rightarrow> Association list \<times> bool" where
  "AssociationSet_Search as key =
     (case map_of as key of
        None \<Rightarrow> ([], False)
      | Some grp \<Rightarrow> (map snd grp, True))"

definition AssociationSet_ContainsKey :: "AssociationSet \<Rightarrow> string \<Rightarrow> string \<Rightarrow> bool" where
  "AssociationSet_ContainsKey as key assocKey =
     (case map_of as key of
        None \<Rightarrow> False
      | Some grp \<Rightarrow> map_of grp assocKey \<noteq> None)"

text \<open>
  \<open>image.ConvertToAssociationSet\<close> and \<open>AssociationSet.UpdatePath\<close> are not among the sources
  either; the environment gives their results.
\<close>

definition ConvertToAssociationSet :: "env \<Rightarrow> Association list \<Rightarrow> error + AssociationSet" where
  "ConvertToAssociationSet E as =
     (case fault E (CallConvertToAssociationSet as) of
        Some err \<Rightarrow> Inl err
      | None \<Rightarrow> Inr (AssociationSetOf E as))"

definition UpdatePath :: "env \<Rightarrow> AssociationSet \<Rightarrow> error + AssociationSet" where
  "UpdatePath E as =
     (case fault E (CallUpdatePath as) of
        Some err \<Rightarrow> Inl err
      | None \<Rightarrow> Inr (UpdatedPath E as))"

text \<open>
  Modelled from the spec: \<open>image.GetImageFromBlob\<close> is not among the sources. The prior set is
  consulted "to find which source image reference owned L (the first association whose
  \<open>LayerDigests\<close> contains L wins)": the answer is the top-level image key of that
  association, and the empty string when there is none.
\<close>

fun find_layer_owner :: "AssociationSet \<Rightarrow> string \<Rightarrow> (string \<times> Association) option" where
  "find_layer_owner [] digest = None"
| "find_layer_owner (g # rest) digest =
     (case find (\<lambda>a. digest \<in> set (LayerDigests a)) (map snd (snd g)) of
        Some a \<Rightarrow> Some (fst g, a)
      | None \<Rightarrow> find_layer_owner rest digest)"

definition GetImageFromBlob :: "AssociationSet \<Rightarrow> string \<Rightarrow> string" where
  "GetImageFromBlob as digest =
     (case find_layer_owner as digest of
        None \<Rightarrow> []
      | Some owner \<Rightarrow> fst owner)"

text \<open>
  The associations of a set with the top-level key of each, in the order in which the
  search visits them.
\<close>

definition associations_of :: "AssociationSet \<Rightarrow> (string \<times> Association) list" where
  "associations_of as = concat (map (\<lambda>g. map (\<lambda>e. (fst g, snd e)) (snd g)) as)"

text \<open>
  Modelled from the spec: \<open>TypedImageMapping.Add\<close> and \<open>Merge\<close> are not among the sources.
  \<open>Add\<close> records "a top-level mapping (original remote reference to destination), tagged with
  the association's Type"; \<open>Merge\<close> adds the entries of another mapping.
\<close>

definition TypedImageMapping_Add ::
  "TypedImageMapping \<Rightarrow> TypedImageReference \<Rightarrow> TypedImageReference \<Rightarrow> ImageType
   \<Rightarrow> TypedImageMapping" where
  "TypedImageMapping_Add m srcRef dstRef typ =
     m(\<lparr>TypedImageReference = srcRef, Category = typ\<rparr>
         \<mapsto> \<lparr>TypedImageReference = dstRef, Category = typ\<rparr>)"

definition TypedImageMapping_Merge :: "TypedImageMapping \<Rightarrow> TypedImageMapping \<Rightarrow> TypedImageMapping" where
  "TypedImageMapping_Merge m other = m ++ other"

section \<open>Unpacking and fetching\<close>

text \<open>\<open>unpack\<close>, lines 497 to 509 of \<open>publish.go\<close>.\<close>

definition unpack ::
  "env \<Rightarrow> string \<Rightarrow> string \<Rightarrow> (string \<rightharpoonup> string) \<Rightarrow> world \<Rightarrow> error option \<times> world" where
  "unpack E archiveFilePath dest filesInArchive w =
     (case filesInArchive archiveFilePath of
        None \<Rightarrow> (Some (ErrArchiveFileNotFound archiveFilePath), w)
      | Some archivePath \<Rightarrow>
          (case archive_Extract E archivePath archiveFilePath dest w of
             (Some err, w1) \<Rightarrow> (Some err, w1)
           | (None, w1) \<Rightarrow>
               (case os_Stat E (filepath_Join [dest, archiveFilePath]) w1 of
                  Some err \<Rightarrow> (Some err, w1)
                | None \<Rightarrow> (None, w1))))"

text \<open>
  \<open>copyBlobFile\<close>, lines 419 to 436. The file is opened with \<open>O_CREATE|O_WRONLY\<close> and not
  truncated: the bytes of an older, longer file stay behind the copied ones.
\<close>

definition copyBlobFile :: "env \<Rightarrow> string \<Rightarrow> string \<Rightarrow> world \<Rightarrow> error option \<times> world" where
  "copyBlobFile E src_data dstPath w =
     (case fault E (CallMkdirAll (filepath_Dir dstPath)) of
        Some err \<Rightarrow> (Some err, w)
      | None \<Rightarrow>
          (let p = filepath_Clean dstPath
           in case (case fault E (CallOpenFile p) of
                      Some err \<Rightarrow> Inl err
                    | None \<Rightarrow>
                        (case map_of (fs w) p of
                           Some (File old) \<Rightarrow> Inr old
                         | Some (Archive entries) \<Rightarrow> Inr []
                         | Some Directory \<Rightarrow> Inl (PathError ''open'' p (LibError ''is a directory''))
                         | None \<Rightarrow> Inr [])) of
                Inl err \<Rightarrow> (Some (ErrorfV ''error creating blob file: %v'' [] err), w)
              | Inr old \<Rightarrow>
                  (case fault E (CallCopy p) of
                     Some err \<Rightarrow>
                       (Some (ErrorfV ''error copying blob %q: %v'' [filepath_Base dstPath] err),
                        w\<lparr>fs := fs_write p (File old) (fs w)\<rparr>)
                   | None \<Rightarrow>
                       (None,
                        w\<lparr>fs := fs_write p (File (src_data @ drop (length src_data) old))
                                   (fs w)\<rparr>))))"

text \<open>
  \<open>fetchBlob\<close>, lines 466 to 495. The loop over the destination paths copies the blob and
  seeks back to its start; \<open>Blob\<close> of the environment is what the registry holds.
\<close>

fun fetchBlob_copy ::
  "env \<Rightarrow> DockerImageReference \<Rightarrow> string \<Rightarrow> string \<Rightarrow> string list \<Rightarrow> world
   \<Rightarrow> error option \<times> world" where
  "fetchBlob_copy E ref layerDigest rc [] w = (None, w)"
| "fetchBlob_copy E ref layerDigest rc (dstPath # rest) w =
     (case copyBlobFile E rc dstPath w of
        (Some err, w1) \<Rightarrow> (Some (ErrorfV ''copy blob for %s: %v'' [RefString E ref] err), w1)
      | (None, w1) \<Rightarrow>
          (case fault E (CallSeek layerDigest) of
             Some err \<Rightarrow> (Some (ErrorfV ''seek to start of blob: %v'' [] err), w1)
           | None \<Rightarrow> fetchBlob_copy E ref layerDigest rc rest w1))"

definition fetchBlob ::
  "env \<Rightarrow> MirrorOptions \<Rightarrow> DockerImageReference \<Rightarrow> string \<Rightarrow> string list \<Rightarrow> world
   \<Rightarrow> error option \<times> world" where
  "fetchBlob E o' ref layerDigest dstPaths w =
     (let insecure = (DestPlainHTTP o' \<or> DestSkipTLS o')
      in case fault E (CallRepositoryForRef ref insecure) of
           Some err \<Rightarrow> (Some (ErrorfV ''create repo for %s: %v'' [RefString E ref] err), w)
         | None \<Rightarrow>
             (case fault E (CallDigestParse layerDigest) of
                Some err \<Rightarrow> (Some err, w)
              | None \<Rightarrow>
                  (case fault E (CallBlobOpen ref layerDigest) of
                     Some err \<Rightarrow> (Some (ErrorfV ''open blob: %v'' [] err), w)
                   | None \<Rightarrow>
                       fetchBlob_copy E ref layerDigest (Blob E ref layerDigest) dstPaths w)))"

text \<open>\<open>findBlobRepo\<close>, lines 562 to 574.\<close>

definition findBlobRepo ::
  "env \<Rightarrow> MirrorOptions \<Rightarrow> AssociationSet \<Rightarrow> string \<Rightarrow> TypedImageReference \<times> error option" where
  "findBlobRepo E o' assocs layerDigest =
     (let srcRef = GetImageFromBlob assocs layerDigest
      in if srcRef = []
         then (zero_TypedImageReference,
               Some (Errorf ''layer %q is not present in previous metadata'' [layerDigest]))
         else
           (let (dstRef, err) = ParseReference E srcRef;
                dstRef1 = dstRef\<lparr>Ref := (Ref dstRef)\<lparr>Registry := ToMirror o'\<rparr>\<rparr>;
                dstRef2 = dstRef1\<lparr>Ref := (Ref dstRef1)
                            \<lparr>Namespace := path_Join [UserNamespace o', Namespace (Ref dstRef1)]\<rparr>\<rparr>
            in (dstRef2, err)))"

text \<open>The error that \<open>fetchBlobs\<close> records for a layer that \<open>findBlobRepo\<close> does not find.\<close>

definition lookup_failure :: "string \<Rightarrow> error" where
  "lookup_failure layerDigest =
     ErrorfV ''error finding remote layer %q: %v'' [layerDigest]
       (Errorf ''layer %q is not present in previous metadata'' [layerDigest])"

text \<open>
  \<open>missingLayers\<close> is a Go map from a layer digest to the paths the layer has to be copied
  to. It is an association list here; \<open>range_missingLayers\<close> is the order in which the
  \<open>range\<close> loop of \<open>fetchBlobs\<close> visits it: any rearrangement that the environment picks.
\<close>

fun missingLayers_append ::
  "string \<Rightarrow> string \<Rightarrow> (string \<times> string list) list \<Rightarrow> (string \<times> string list) list" where
  "missingLayers_append k v [] = [(k, [v])]"
| "missingLayers_append k v (e # m) =
     (if fst e = k then (k, snd e @ [v]) # m else e # missingLayers_append k v m)"

definition range_missingLayers ::
  "env \<Rightarrow> (string \<times> string list) list \<Rightarrow> (string \<times> string list) list" where
  "range_missingLayers E m =
     (let m' = MissingLayersOrder E m
      in if set m' = set m \<and> length m' = length m then m' else m)"

text \<open>\<open>fetchBlobs\<close>, lines 438 to 462; \<open>fetchBlobs_step\<close> is one round of its loop.\<close>

definition fetchBlobs_step ::
  "env \<Rightarrow> MirrorOptions \<Rightarrow> AssociationSet \<Rightarrow> string \<times> string list \<Rightarrow> error list \<times> world
   \<Rightarrow> error list \<times> world" where
  "fetchBlobs_step E o' asSet entry acc =
     (let layerDigest = fst entry;
          dstBlobPaths = snd entry;
          (imgRef, err) = findBlobRepo E o' asSet layerDigest;
          errs1 = (case err of
                     Some e \<Rightarrow>
                       fst acc @ [ErrorfV ''error finding remote layer %q: %v'' [layerDigest] e]
                   | None \<Rightarrow> fst acc)
      in case fetchBlob E o' (Ref imgRef) layerDigest dstBlobPaths (snd acc) of
           (Some e, w1) \<Rightarrow> (errs1 @ [ErrorfV ''layer %s: %v'' [layerDigest] e], w1)
         | (None, w1) \<Rightarrow> (errs1, w1))"

definition fetchBlobs ::
  "env \<Rightarrow> MirrorOptions \<Rightarrow> Metadata \<Rightarrow> (string \<times> string list) list \<Rightarrow> world
   \<Rightarrow> error option \<times> world" where
  "fetchBlobs E o' meta missingLayers w =
     (case fault E (CallNewContext (SkipVerification o')) of
        Some err \<Rightarrow> (Some (ErrorfV ''error creating registry context: %v'' [] err), w)
      | None \<Rightarrow>
          (case ConvertToAssociationSet E (PastAssociations meta) of
             Inl err \<Rightarrow> (Some err, w)
           | Inr asSet \<Rightarrow>
               (let (errs, w1) =
                      fold (fetchBlobs_step E o' asSet) (range_missingLayers E missingLayers)
                        ([], w)
                in (NewAggregate errs, w1))))"

text \<open>\<open>publishImage\<close>, lines 521 to 560: the call is logged, the mirror library does the rest.\<close>

definition publishImage ::
  "env \<Rightarrow> MirrorOptions \<Rightarrow> Mapping list \<Rightarrow> string \<Rightarrow> world \<Rightarrow> error option \<times> world" where
  "publishImage E o' mappings fromDir w =
     (let w0 = w\<lparr>log := log w @ [EvPublishImage mappings fromDir]\<rparr>
      in case fault E (CallNewContext (SkipVerification o')) of
           Some err \<Rightarrow> (Some (ErrorfV ''error creating registry context: %v'' [] err), w0)
         | None \<Rightarrow>
             (case fault E (CallMirrorValidate mappings) of
                Some err \<Rightarrow> (Some (ErrorfV ''invalid image mirror options: %v'' [] err), w0)
              | None \<Rightarrow>
                  (case fault E (CallMirrorRun mappings fromDir) of
                     Some err \<Rightarrow>
                       (Some (ErrorfV ''error running generic image mirror: %v'' [] err), w0)
                   | None \<Rightarrow> (None, w0))))"


section \<open>The per-image loop of Publish\<close>

text \<open>
  What \<open>Publish\<close> has in hand once the incoming metadata is read and the backend is chosen
  (\<open>publish_ctx\<close>), and once the associations and the destination are parsed (\<open>loop_ctx\<close>).
\<close>

record publish_ctx =
  opts :: MirrorOptions
  tmpdir :: string
  filesInArchive :: "string \<rightharpoonup> string"
  incomingMeta :: Metadata
  backend :: Backend

record loop_ctx = publish_ctx +
  currentMeta :: Metadata
  assocs :: AssociationSet
  toMirrorRef :: TypedImageReference

text \<open>What the loop changes: the error list \<open>errs\<close>, \<open>allMappings\<close>, and the world.\<close>

record loop_state =
  errs :: "error list"
  allMappings :: TypedImageMapping
  wld :: world

text \<open>One round of the loop over \<open>assoc.ManifestDigests\<close>, lines 213 to 229.\<close>

definition manifest_step ::
  "env \<Rightarrow> 'a loop_ctx_scheme \<Rightarrow> string \<Rightarrow> string \<Rightarrow> string \<Rightarrow> string \<Rightarrow> error list \<times> world
   \<Rightarrow> error list \<times> world" where
  "manifest_step E C imageName manifestPath unpackDir manifestDigest acc =
     (if \<not> AssociationSet_ContainsKey (assocs C) imageName manifestDigest
      then (fst acc @ [Errorf
              ''image %q: expected associations to have manifest %s but was not found''
              [imageName, manifestDigest]], snd acc)
      else
        (let manifestArchivePath = filepath_Join [manifestPath, manifestDigest]
         in case os_Stat E manifestArchivePath (snd acc) of
              None \<Rightarrow> acc
            | Some err \<Rightarrow>
                if errors_Is err ErrNotExist then
                  (case unpack E manifestArchivePath unpackDir (filesInArchive C) (snd acc) of
                     (Some err1, w1) \<Rightarrow> (fst acc @ [err1], w1)
                   | (None, w1) \<Rightarrow> (fst acc, w1))
                else
                  (fst acc @ [ErrorfV ''accessing image %q manifest %q: %v''
                                [imageName, manifestDigest] err], snd acc)))"

text \<open>
  One round of the loop over \<open>assoc.LayerDigests\<close>, lines 238 to 255. The state is
  \<open>missingLayers\<close>, \<open>errs\<close> and the world.
\<close>

definition layer_step ::
  "env \<Rightarrow> 'a loop_ctx_scheme \<Rightarrow> string \<Rightarrow> string \<Rightarrow> Association \<Rightarrow> string
   \<Rightarrow> (string \<times> string list) list \<times> error list \<times> world
   \<Rightarrow> (string \<times> string list) list \<times> error list \<times> world" where
  "layer_step E C imageName unpackDir assoc layerDigest acc =
     (let missingLayers = fst acc;
          errs0 = fst (snd acc);
          w = snd (snd acc);
          blobPath = filepath_Join [''blobs'', layerDigest];
          imagePath = filepath_Join [unpackDir, ''v2'', Path assoc];
          imageBlobPath = filepath_Join [imagePath, blobPath]
      in case unpack E blobPath imagePath (filesInArchive C) w of
           (None, w1) \<Rightarrow> (missingLayers, errs0, w1)
         | (Some err, w1) \<Rightarrow>
             if errors_Is err ErrNotExist \<or> errors_As_ArchiveFileNotFound err
             then (missingLayers_append layerDigest imageBlobPath missingLayers, errs0, w1)
             else (missingLayers,
                   errs0 @ [ErrorfV ''accessing image %q blob %q at %s: %v''
                              [imageName, layerDigest, blobPath] err],
                   w1))"

text \<open>
  \<open>imageBlobPath\<close> of line 243: the path of the blob of a layer in the layout of the image.
\<close>

definition imageBlobPath :: "string \<Rightarrow> Association \<Rightarrow> string \<Rightarrow> string" where
  "imageBlobPath unpackDir assoc layerDigest =
     filepath_Join [filepath_Join [unpackDir, ''v2'', Path assoc],
                    filepath_Join [''blobs'', layerDigest]]"

text \<open>
  The body of the loop over the associations of one image up to line 289: the manifests, the
  layers, the mapping of the association and, for the top-level association, the entry of
  \<open>allMappings\<close>. \<open>Inl\<close> is a \<open>continue\<close> (an error has been appended to \<open>errs\<close>), \<open>Inr\<close>
  the arrival at line 291 with \<open>missingLayers\<close>; both carry \<open>mmapping\<close> and the state.
\<close>

definition assemble_assoc ::
  "env \<Rightarrow> 'a loop_ctx_scheme \<Rightarrow> string \<Rightarrow> string \<Rightarrow> Association \<Rightarrow> Mapping list \<times> loop_state
   \<Rightarrow> (Mapping list \<times> loop_state)
      + ((string \<times> string list) list \<times> Mapping list \<times> loop_state)" where
  "assemble_assoc E C imageName unpackDir assoc acc =
     (let mmapping = fst acc;
          st = snd acc;
          manifestPath = filepath_Join [''v2'', Path assoc, ''manifests''];
          (errs1, w1) = fold (manifest_step E C imageName manifestPath unpackDir)
                          (ManifestDigests assoc) (errs st, wld st)
      in case unpack E (filepath_Join [manifestPath, ID assoc]) unpackDir (filesInArchive C) w1 of
           (Some err, w2) \<Rightarrow>
             Inl (mmapping,
                  st\<lparr>errs := errs1 @ [ErrorfV ''error occured during unpacking %v'' [] err],
                     wld := w2\<rparr>)
         | (None, w2) \<Rightarrow>
             (let (missingLayers, errs2, w3) =
                    fold (layer_step E C imageName unpackDir assoc) (LayerDigests assoc)
                      ([], errs1, w2);
                  (source0, perr) = ParseReference E (''file://'' @ Path assoc)
              in case perr of
                   Some err \<Rightarrow>
                     Inl (mmapping,
                          st\<lparr>errs := errs2 @ [ErrorfV ''error parsing source ref %q: %v''
                                                [Path assoc] err],
                             wld := w3\<rparr>)
                 | None \<Rightarrow>
                     (case (if TagSymlink assoc \<noteq> []
                            then unpack E (filepath_Join [manifestPath, TagSymlink assoc])
                                   unpackDir (filesInArchive C) w3
                            else (None, w3)) of
                        (Some err, w4) \<Rightarrow>
                          Inl (mmapping,
                               st\<lparr>errs := errs2 @ [ErrorfV ''error unpacking symlink %v'' [] err],
                                  wld := w4\<rparr>)
                      | (None, w4) \<Rightarrow>
                          (let source1 = (if TagSymlink assoc \<noteq> []
                                          then source0\<lparr>Ref := (Ref source0)
                                                 \<lparr>Tag := TagSymlink assoc\<rparr>\<rparr>
                                          else source0);
                               source2 = source1\<lparr>Ref := (Ref source1)\<lparr>RefID := ID assoc\<rparr>\<rparr>;
                               dest = (toMirrorRef C)\<lparr>Ref := (Ref (toMirrorRef C))
                                        \<lparr>RefName := RefName (Ref source2),
                                         Tag := Tag (Ref source2),
                                         RefID := RefID (Ref source2),
                                         Namespace := path_Join [UserNamespace (opts C),
                                                        Namespace (Ref source2)]\<rparr>\<rparr>;
                               m = \<lparr>MappingName = Name assoc, Source = source2,
                                    Destination = dest\<rparr>;
                               mmapping1 = mmapping @ [m]
                           in if Name assoc = imageName
                              then (case ParseReference E imageName of
                                      (source, Some err) \<Rightarrow>
                                        Inl (mmapping1, st\<lparr>errs := errs2 @ [err], wld := w4\<rparr>)
                                    | (source, None) \<Rightarrow>
                                        Inr (missingLayers, mmapping1,
                                             st\<lparr>errs := errs2,
                                                allMappings :=
                                                  TypedImageMapping_Add (allMappings st) source
                                                    dest (Type assoc),
                                                wld := w4\<rparr>))
                              else Inr (missingLayers, mmapping1,
                                        st\<lparr>errs := errs2, wld := w4\<rparr>)))))"

text \<open>
  The whole body, lines 204 to 297: after the assembly the missing layers are fetched, and
  an error of \<open>fetchBlobs\<close> makes \<open>Publish\<close> return at once. The result is that error, if
  any, with \<open>mmapping\<close> and the state.
\<close>

definition process_assoc ::
  "env \<Rightarrow> 'a loop_ctx_scheme \<Rightarrow> string \<Rightarrow> string \<Rightarrow> Association \<Rightarrow> Mapping list \<times> loop_state
   \<Rightarrow> error option \<times> Mapping list \<times> loop_state" where
  "process_assoc E C imageName unpackDir assoc acc =
     (case assemble_assoc E C imageName unpackDir assoc acc of
        Inl acc1 \<Rightarrow> (None, acc1)
      | Inr (missingLayers, mmapping1, st1) \<Rightarrow>
          if length missingLayers \<noteq> 0
          then (case fetchBlobs E (opts C) (currentMeta C) missingLayers (wld st1) of
                  (Some err, w5) \<Rightarrow> (Some err, mmapping1, st1\<lparr>wld := w5\<rparr>)
                | (None, w5) \<Rightarrow> (None, mmapping1, st1\<lparr>wld := w5\<rparr>))
          else (None, mmapping1, st1))"

text \<open>The loop over the associations of one image; it stops at the first such error.\<close>

fun assoc_loop ::
  "env \<Rightarrow> 'a loop_ctx_scheme \<Rightarrow> string \<Rightarrow> string \<Rightarrow> Association list \<Rightarrow> Mapping list \<times> loop_state
   \<Rightarrow> error option \<times> Mapping list \<times> loop_state" where
  "assoc_loop E C imageName unpackDir [] acc = (None, acc)"
| "assoc_loop E C imageName unpackDir (assoc # rest) acc =
     (case process_assoc E C imageName unpackDir assoc acc of
        (Some err, acc1) \<Rightarrow> (Some err, acc1)
      | (None, acc1) \<Rightarrow> assoc_loop E C imageName unpackDir rest acc1)"

text \<open>The body of the loop over the image names, lines 192 to 310.\<close>

definition process_image ::
  "env \<Rightarrow> 'a loop_ctx_scheme \<Rightarrow> string \<Rightarrow> loop_state \<Rightarrow> error option \<times> loop_state" where
  "process_image E C imageName st =
     (let values = fst (AssociationSet_Search (assocs C) imageName)
      in case mktempDir E (tmpdir C) (wld st) of
           (Inl err, w1) \<Rightarrow> (Some err, st\<lparr>wld := w1\<rparr>)
         | (Inr unpackDir, w1) \<Rightarrow>
             (case assoc_loop E C imageName unpackDir values ([], st\<lparr>wld := w1\<rparr>) of
                (Some err, mmapping, st1) \<Rightarrow> (Some err, st1)
              | (None, mmapping, st1) \<Rightarrow>
                  (let st2 = (if length mmapping \<noteq> 0
                              then (case publishImage E (opts C) mmapping unpackDir (wld st1) of
                                      (Some err, w2) \<Rightarrow> st1\<lparr>errs := errs st1 @ [err], wld := w2\<rparr>
                                    | (None, w2) \<Rightarrow> st1\<lparr>wld := w2\<rparr>)
                              else st1);
                       st3 = (if \<not> SkipCleanup (opts C)
                              then st2\<lparr>wld := os_RemoveAll unpackDir (wld st2)\<rparr>
                              else st2)
                   in (None, st3))))"

fun image_loop ::
  "env \<Rightarrow> 'a loop_ctx_scheme \<Rightarrow> string list \<Rightarrow> loop_state \<Rightarrow> error option \<times> loop_state" where
  "image_loop E C [] st = (None, st)"
| "image_loop E C (imageName # rest) st =
     (case process_image E C imageName st of
        (Some err, st1) \<Rightarrow> (Some err, st1)
      | (None, st1) \<Rightarrow> image_loop E C rest st1)"


section \<open>Publish\<close>

text \<open>The zero value of \<open>v1alpha2.Metadata\<close>, which \<open>currentMeta\<close> holds until it is read.\<close>

definition zero_Metadata :: Metadata where
  "zero_Metadata =
     \<lparr>Uid = [], SingleUse = False, PastMirror = \<lparr>Sequence = 0, Associations = []\<rparr>,
      PastAssociations = []\<rparr>"

text \<open>
  \<open>unpackImageSet\<close>, lines 372 to 415. \<open>filepath.Walk\<close> visits what lies at or below
  \<open>o.From\<close>; every visited path with the extension of the archiver is unarchived.
\<close>

definition fs_IsDir :: "filesystem \<Rightarrow> string \<Rightarrow> bool" where
  "fs_IsDir files p =
     (map_of files p = Some Directory \<or> list_ex (\<lambda>e. HasPrefix (fst e) (p @ ''/'')) files)"

fun unpackImageSet_walk ::
  "env \<Rightarrow> string \<Rightarrow> string list \<Rightarrow> string list \<Rightarrow> world \<Rightarrow> error option \<times> world" where
  "unpackImageSet_walk E dest exclude [] w = (None, w)"
| "unpackImageSet_walk E dest exclude (p # ps) w =
     (case fault E (CallWalkVisit p) of
        Some err \<Rightarrow> (Some (ErrorfV ''traversing %s: %v'' [p] err), w)
      | None \<Rightarrow>
          (let extension = TrimPrefix (filepath_Ext p) ''.''
           in if extension = ArchiverString E
              then (case archive_Unarchive E p dest exclude w of
                      (Some err, w1) \<Rightarrow> (Some err, w1)
                    | (None, w1) \<Rightarrow> unpackImageSet_walk E dest exclude ps w1)
              else unpackImageSet_walk E dest exclude ps w))"

definition unpackImageSet ::
  "env \<Rightarrow> MirrorOptions \<Rightarrow> string \<Rightarrow> world \<Rightarrow> error option \<times> world" where
  "unpackImageSet E o' dest w =
     (let exclude = [BlobDir E, V2Dir E, HelmDir E]
      in case os_Stat E (From o') w of
           Some err \<Rightarrow> (Some err, w)
         | None \<Rightarrow>
             if fs_IsDir (fs w) (From o')
             then unpackImageSet_walk E dest exclude
                    (filter (\<lambda>q. below q (From o')) (map fst (fs w))) w
             else archive_Unarchive E (From o') dest exclude w)"

text \<open>
  \<open>processCustomImages\<close>, lines 336 to 369. The methods that unpack and rebuild catalogs and
  graph data are not among the sources; the environment gives what they return.
\<close>

definition processCustomImages :: "env \<Rightarrow> TypedImageMapping \<times> error option" where
  "processCustomImages E =
     (let allMappings0 = Map.empty
      in case fault E CallUnpackCatalog of
           Some err \<Rightarrow> (allMappings0, Some err)
         | None \<Rightarrow>
             (case (if CatalogFound E
                    then (case fault E CallRebuildCatalogs of
                            Some err \<Rightarrow>
                              Inl (ErrorfV
                                ''error rebuilding catalog images from file-based catalogs: %v''
                                [] err)
                          | None \<Rightarrow> Inr (TypedImageMapping_Merge allMappings0 (CatalogRefs E)))
                    else Inr allMappings0) of
                Inl err \<Rightarrow> (allMappings0, Some err)
              | Inr allMappings1 \<Rightarrow>
                  (case fault E CallUnpackRelease of
                     Some err \<Rightarrow> (allMappings1, Some err)
                   | None \<Rightarrow>
                       if ReleaseFound E
                       then (case fault E CallBuildGraphImage of
                               Some err \<Rightarrow>
                                 (allMappings1,
                                  Some (ErrorfV ''error building cincinnati graph image: %v''
                                          [] err))
                             | None \<Rightarrow>
                                 (TypedImageMapping_Merge allMappings1 (GraphRef E), None))
                       else (allMappings1, None))))"

text \<open>
  The reference of the metadata image of a workspace: the image that line 115 names after
  the Uid, as \<open>NewRegistryBackend\<close> parses it and gives it the tag \<open>latest\<close>.
\<close>

definition metadata_image_ref :: "env \<Rightarrow> MirrorOptions \<Rightarrow> string \<Rightarrow> TypedImageReference" where
  "metadata_image_ref E o' uid =
     (let ref = fst (ParseReference E (newMetadataImage E o' uid))
      in if length (Tag (Ref ref)) = 0 then ref\<lparr>Ref := (Ref ref)\<lparr>Tag := ''latest''\<rparr>\<rparr> else ref)"

text \<open>
  Lines 59 to 142 of \<open>Publish\<close>: the output directory, the workspace, the index of the
  archive, the incoming metadata and the backend. The result is the error that ends the run
  or the context for the rest, the world, and the workspace directory once it is made (its
  cleanup is deferred from then on).
\<close>

definition Publish_open ::
  "env \<Rightarrow> MirrorOptions \<Rightarrow> world \<Rightarrow> (error + publish_ctx) \<times> world \<times> string option" where
  "Publish_open E o' w =
     (let insecure = (DestPlainHTTP o' \<or> DestSkipTLS o')
      in case (if OutputDir o' = []
               then (o'\<lparr>OutputDir := ResultsDirName E\<rparr>, fault E CallCreateResultsDir)
               else (o', None)) of
           (o1, Some err) \<Rightarrow> (Inl err, w, None)
         | (o1, None) \<Rightarrow>
             (case mktempDir E (Dir o1) w of
                (Inl err, w1) \<Rightarrow> (Inl err, w1, None)
              | (Inr tmp, w1) \<Rightarrow>
                  (case fault E (CallReadImageSet (From o1)) of
                     Some err \<Rightarrow> (Inl err, w1, Some tmp)
                   | None \<Rightarrow>
                       (case unpackImageSet E o1 tmp w1 of
                          (Some err, w2) \<Rightarrow> (Inl err, w2, Some tmp)
                        | (None, w2) \<Rightarrow>
                            (case NewLocalBackend E tmp of
                               Inl err \<Rightarrow>
                                 (Inl (ErrorfV ''error opening local backend: %v'' [] err),
                                  w2, Some tmp)
                             | Inr workspace \<Rightarrow>
                                 (case localDirBackend_ReadMetadata E workspace
                                         (MetadataBasePath E) w2 of
                                    Inl err \<Rightarrow>
                                      (Inl (ErrorfV ''error reading incoming metadata: %v''
                                              [] err), w2, Some tmp)
                                  | Inr incoming \<Rightarrow>
                                      (let metaImage = newMetadataImage E o1 (Uid incoming);
                                           cfg = (if SingleUse incoming
                                                  then \<lparr>RegistryCfg = None,
                                                        LocalCfg = Some (Dir o1)\<rparr>
                                                  else \<lparr>RegistryCfg =
                                                          Some \<lparr>ImageURL = metaImage,
                                                                SkipTLS = insecure\<rparr>,
                                                        LocalCfg = None\<rparr>)
                                       in case ByConfig E (Dir o1) cfg of
                                            Inl err \<Rightarrow> (Inl err, w2, Some tmp)
                                          | Inr b \<Rightarrow>
                                              (Inr \<lparr>opts = o1, tmpdir = tmp,
                                                    filesInArchive = ImageSetIndex E (From o1),
                                                    incomingMeta = incoming, backend = b\<rparr>,
                                               w2, Some tmp))))))))"

text \<open>
  Lines 144 to 188: the current metadata and the sequence guard, the Helm charts, the
  associations and the destination. The result is what \<open>Publish\<close> returns when it leaves
  here, or the context of the loop over the images.
\<close>

definition Publish_prepare ::
  "env \<Rightarrow> publish_ctx \<Rightarrow> world \<Rightarrow> ((TypedImageMapping \<times> error) + loop_ctx) \<times> world" where
  "Publish_prepare E C w =
     (let (current, w1) = Backend_ReadMetadata E (backend C) (MetadataBasePath E) w
      in case sequence_guard current (incomingMeta C) of
           Some err \<Rightarrow> (Inl (Map.empty, err), w1)
         | None \<Rightarrow>
             (let current_meta = (case current of Inl err \<Rightarrow> zero_Metadata | Inr m \<Rightarrow> m)
              in case unpack E (HelmDir E) (OutputDir (opts C)) (filesInArchive C) w1 of
                   (Some err, w2) \<Rightarrow> (Inl (Map.empty, err), w2)
                 | (None, w2) \<Rightarrow>
                     (case ConvertToAssociationSet E
                             (Associations (PastMirror (incomingMeta C))) of
                        Inl err \<Rightarrow> (Inl (Map.empty, err), w2)
                      | Inr assocs0 \<Rightarrow>
                          (case UpdatePath E assocs0 of
                             Inl err \<Rightarrow> (Inl (Map.empty, err), w2)
                           | Inr assocs1 \<Rightarrow>
                               (case ParseReference E (ToMirror (opts C)) of
                                  (mirrorRef, Some err) \<Rightarrow>
                                    (Inl (Map.empty,
                                          ErrorfV ''error parsing mirror registry %q: %v''
                                            [ToMirror (opts C)] err), w2)
                                | (mirrorRef, None) \<Rightarrow>
                                    if RefType mirrorRef \<noteq> DestinationRegistry
                                    then (Inl (Map.empty,
                                               Errorf
                                                 ''destination %q must be a registry reference''
                                                 [ToMirror (opts C)]), w2)
                                    else
                                      (Inr (publish_ctx.extend C
                                              (loop_ctx.fields current_meta assocs1 mirrorRef)),
                                       w2))))))"

text \<open>
  Lines 144 to 310: the preparation and the loop over the images. The result is the state
  at the end of the loop, or what \<open>Publish\<close> returns when it leaves before.
\<close>

definition Publish_run_loop ::
  "env \<Rightarrow> publish_ctx \<Rightarrow> world \<Rightarrow> ((TypedImageMapping \<times> error) + loop_state) \<times> world" where
  "Publish_run_loop E C w =
     (case Publish_prepare E C w of
        (Inl early, w1) \<Rightarrow> (Inl early, w1)
      | (Inr L, w2) \<Rightarrow>
          (case image_loop E L (AssociationSet_Keys (assocs L))
                  \<lparr>errs = [], allMappings = Map.empty, wld = w2\<rparr> of
             (Some err, st) \<Rightarrow> (Inl (allMappings st, err), wld st)
           | (None, st) \<Rightarrow> (Inr st, wld st)))"

text \<open>
  Lines 311 to 332: the aggregate of the collected errors, or the release signatures, the
  custom images and the new metadata.
\<close>

definition Publish_close ::
  "env \<Rightarrow> publish_ctx \<Rightarrow> loop_state \<Rightarrow> (TypedImageMapping \<times> error option) \<times> world" where
  "Publish_close E C st =
     (if length (errs st) \<noteq> 0
      then ((allMappings st, NewAggregate (errs st)), wld st)
      else
        (case fault E CallUnpackReleaseSignatures of
           Some err \<Rightarrow> ((allMappings st, Some err), wld st)
         | None \<Rightarrow>
             (case processCustomImages E of
                (mappings, Some err) \<Rightarrow> ((allMappings st, Some err), wld st)
              | (mappings, None) \<Rightarrow>
                  (let allMappings1 = TypedImageMapping_Merge (allMappings st) mappings
                   in case Backend_WriteMetadata E (backend C) (incomingMeta C)
                             (MetadataBasePath E) (wld st) of
                        (Some err, w1) \<Rightarrow> ((allMappings1, Some err), w1)
                      | (None, w1) \<Rightarrow> ((allMappings1, None), w1)))))"

definition Publish_body ::
  "env \<Rightarrow> publish_ctx \<Rightarrow> world \<Rightarrow> (TypedImageMapping \<times> error option) \<times> world" where
  "Publish_body E C w =
     (case Publish_run_loop E C w of
        (Inl early, w1) \<Rightarrow> ((fst early, Some (snd early)), w1)
      | (Inr st, w1) \<Rightarrow> Publish_close E C st)"

text \<open>
  The deferred calls, which run when \<open>Publish\<close> returns, the last one first: the cleanup of
  the backend in stateless mode (line 126; its error is only logged), then the removal of the
  workspace unless \<open>SkipCleanup\<close> is set (line 88).
\<close>

definition run_deferred :: "env \<Rightarrow> publish_ctx \<Rightarrow> world \<Rightarrow> world" where
  "run_deferred E C w =
     (let w1 = (if SingleUse (incomingMeta C)
                then snd (Backend_Cleanup E (backend C) (MetadataBasePath E) w)
                else w)
      in if \<not> SkipCleanup (opts C) then os_RemoveAll (tmpdir C) w1 else w1)"

text \<open>\<open>Publish\<close>, lines 59 to 333.\<close>

definition Publish ::
  "env \<Rightarrow> MirrorOptions \<Rightarrow> world \<Rightarrow> (TypedImageMapping \<times> error option) \<times> world" where
  "Publish E o' w =
     (case Publish_open E o' w of
        (Inl err, w1, None) \<Rightarrow> ((Map.empty, Some err), w1)
      | (Inl err, w1, Some tmp) \<Rightarrow>
          ((Map.empty, Some err), if \<not> SkipCleanup o' then os_RemoveAll tmp w1 else w1)
      | (Inr C, w1, tmp) \<Rightarrow>
          (let (r, w2) = Publish_body E C w1 in (r, run_deferred E C w2)))"

section \<open>Notions for the statements\<close>

text \<open>
  \<open>quiet w w'\<close>: from \<open>w\<close> to \<open>w'\<close> the metadata images of the registry stay as they are and
  no call to \<open>WriteMetadata\<close> is logged.
\<close>

definition quiet :: "world \<Rightarrow> world \<Rightarrow> bool" where
  "quiet w w' \<longleftrightarrow>
     images w' = images w \<and> (\<exists>evs. log w' = log w @ evs \<and> EvWriteMetadata \<notin> set evs)"

text \<open>
  Metadata is valid when its JSON encoding exists and decodes to the same metadata.
\<close>

definition valid_Metadata :: "env \<Rightarrow> Metadata \<Rightarrow> bool" where
  "valid_Metadata E m \<longleftrightarrow>
     (case json_Marshal E m of
        Inl err \<Rightarrow> False
      | Inr data \<Rightarrow> json_Unmarshal E data = Inr m)"

text \<open>
  \<open>keeps w w'\<close>: every path that exists in the file system of \<open>w\<close> exists in that of \<open>w'\<close>.
\<close>

definition keeps :: "world \<Rightarrow> world \<Rightarrow> bool" where
  "keeps w w' \<longleftrightarrow> (\<forall>p. fs_exists (fs w) p \<longrightarrow> fs_exists (fs w') p)"



section \<open>Concrete environments and inputs\<close>

text \<open>
  A stand-in for \<open>imagesource.ParseReference\<close> in the concrete runs below: the empty string
  does not parse, \<open>file://\<close> marks a file reference, anything else is a registry reference.
  A string with a dot and without a separator is the host of a registry; in any other string
  the part after the first colon is the tag and the part before it the name.
\<close>

definition name_tag :: "string \<Rightarrow> DockerImageReference" where
  "name_tag s =
     zero_DockerImageReference
       \<lparr>RefName := takeWhile (\<lambda>c. c \<noteq> CHR '':'') s,
        Tag := drop 1 (dropWhile (\<lambda>c. c \<noteq> CHR '':'') s)\<rparr>"

definition parse0 :: "string \<Rightarrow> TypedImageReference \<times> error option" where
  "parse0 s =
     (if s = [] then (zero_TypedImageReference, Some (LibError ''invalid reference''))
      else if HasPrefix s ''file://''
      then (\<lparr>RefType = DestinationFile, Ref = name_tag (drop 7 s)\<rparr>, None)
      else if CHR ''/'' \<notin> set s \<and> CHR ''.'' \<in> set s
      then (\<lparr>RefType = DestinationRegistry,
             Ref = zero_DockerImageReference\<lparr>Registry := s\<rparr>\<rparr>, None)
      else (\<lparr>RefType = DestinationRegistry, Ref = name_tag s\<rparr>, None))"

definition exact0 :: "DockerImageReference \<Rightarrow> string" where
  "exact0 r = RefName r @ '':'' @ Tag r"

text \<open>A JSON codec given by a table of documents and the metadata they stand for.\<close>

definition table_Marshal :: "(string \<times> Metadata) list \<Rightarrow> Metadata \<Rightarrow> error + string" where
  "table_Marshal t m =
     (case find (\<lambda>e. snd e = m) t of
        Some e \<Rightarrow> Inr (fst e)
      | None \<Rightarrow> Inl (LibError ''json: unsupported value''))"

definition table_Unmarshal :: "(string \<times> Metadata) list \<Rightarrow> string \<Rightarrow> error + Metadata" where
  "table_Unmarshal t s =
     (case map_of t s of
        Some m \<Rightarrow> Inr m
      | None \<Rightarrow> Inl (LibError ''invalid character''))"

text \<open>The environment in which no call fails.\<close>

definition env0 :: "(string \<times> Metadata) list \<Rightarrow> (string \<rightharpoonup> string) \<Rightarrow> env" where
  "env0 t index =
     \<lparr>fault = (\<lambda>c. None),
      ParseReference = parse0,
      Exact = exact0,
      RefString = exact0,
      TempDirName = (\<lambda>d n. d @ ''/t'' @ replicate n CHR ''i''),
      ResultsDirName = ''results'',
      ImageSetIndex = (\<lambda>f. index),
      AssociationSetOf = (\<lambda>as. map (\<lambda>a. (Name a, [(Name a, a)])) as),
      UpdatedPath = (\<lambda>as. as),
      MissingLayersOrder = (\<lambda>m. m),
      json_Marshal = table_Marshal t,
      json_Unmarshal = table_Unmarshal t,
      newMetadataImage = (\<lambda>o' uid. ToMirror o' @ ''/oc-mirror:'' @ uid),
      Blob = (\<lambda>r d. ''layer''),
      MetadataBasePath = ''publish/.metadata.json'',
      HelmDir = ''charts'',
      BlobDir = ''blobs'',
      V2Dir = ''v2'',
      ArchiverString = ''tar'',
      CatalogFound = False,
      CatalogRefs = Map.empty,
      ReleaseFound = False,
      GraphRef = Map.empty\<rparr>"

definition meta_seq :: "string \<Rightarrow> go_int \<Rightarrow> Metadata" where
  "meta_seq u n =
     \<lparr>Uid = u, SingleUse = False, PastMirror = \<lparr>Sequence = n, Associations = []\<rparr>,
      PastAssociations = []\<rparr>"

definition world0 :: world where
  "world0 = \<lparr>fs = [], images = Map.empty, log = [], ntemp = 0\<rparr>"

definition backend0 :: registryBackend where
  "backend0 =
     \<lparr>localDirBackend = \<lparr>dir = ''d''\<rparr>,
      src = \<lparr>RefType = DestinationRegistry,
             Ref = zero_DockerImageReference\<lparr>RefName := ''meta'', Tag := ''latest''\<rparr>\<rparr>,
      insecure = False\<rparr>"

text \<open>The registry of scenario S5: the manifest request is answered with status 401.\<close>

definition env_401 :: env where
  "env_401 =
     (env0 [] Map.empty)
       \<lparr>fault := (\<lambda>c. if c = CallCraneManifest ''meta:latest''
                       then Some (TransportError 401) else None)\<rparr>"

definition opts0 :: MirrorOptions where
  "opts0 =
     \<lparr>From = ''a.tar'', ToMirror = ''reg.test'', UserNamespace = ''ns'', OutputDir = ''out'',
      Dir = ''d'', DestPlainHTTP = False, DestSkipTLS = False, DryRun = False,
      SkipMissing = False, ContinueOnError = False, SkipVerification = False,
      SkipCleanup = False\<rparr>"

definition ctx0 ::
  "(string \<rightharpoonup> string) \<Rightarrow> Metadata \<Rightarrow> Metadata \<Rightarrow> AssociationSet \<Rightarrow> loop_ctx" where
  "ctx0 index inc cur as =
     \<lparr>opts = opts0, tmpdir = ''d/t'', filesInArchive = index, incomingMeta = inc,
      backend = RegistryBackend backend0, currentMeta = cur, assocs = as,
      toMirrorRef = fst (parse0 ''reg.test'')\<rparr>"

definition assoc0 :: Association where
  "assoc0 =
     \<lparr>Name = ''img:latest'', Path = ''img'', TagSymlink = [], ID = ''sha256:m'', Type = 1,
      ManifestDigests = [], LayerDigests = [''sha256:l'']\<rparr>"

definition env_corrupt :: env where
  "env_corrupt =
     (env0 [] Map.empty)
       \<lparr>fault := (\<lambda>c. if c = CallExtract ''a.tar'' ''blobs/sha256:l'' ''d/t/ti/v2/img''
                       then Some (LibError ''corrupt'') else None)\<rparr>"

definition env_norepo :: env where
  "env_norepo =
     (env0 [] Map.empty)
       \<lparr>fault := (\<lambda>c. if c = CallRepositoryForRef zero_DockerImageReference False
                       then Some (LibError ''repository name required'') else None)\<rparr>"


























section \<open>Unfolding the model on concrete inputs\<close>

lemmas path_defs = filepath_Join_def filepath_Clean_def path_Join_def


section \<open>Properties of the sequence guard\<close>

lemma sint_succ: "sint (n::go_int) < 2 ^ 63 - 1 \<Longrightarrow> sint (n + 1) = sint n + 1"
proof -
  assume a: "sint n < 2 ^ 63 - 1"
  have lo: "- (2 ^ 63) \<le> sint n" using sint_ge [of n] by simp
  have "sint (n + 1) = signed_take_bit 63 (sint n + 1)"
    by (simp add: sint_word_ariths)
  also have "\<dots> = sint n + 1"
    using a lo by (intro signed_take_bit_int_eq_self) auto
  finally show ?thesis .
qed

text \<open>
  C1. With current metadata of sequence \<open>N\<close>, where \<open>1 \<le> N\<close> and \<open>N\<close> is below the largest
  \<open>int\<close> of Go, \<open>2 ^ 63 - 1\<close>, the guard lets the run go on exactly when the incoming sequence
  \<open>M\<close> is the integer \<open>N + 1\<close>, and fails otherwise with the sequence error that wants the
  integer \<open>N + 1\<close> and got \<open>M\<close>. When \<open>ReadMetadata\<close> gave an error that is
  \<open>ErrMetadataNotExist\<close>, the guard lets the run go on exactly when the incoming sequence is
  1, and fails otherwise with the sequence error that wants 1 and got \<open>M\<close>.
\<close>

theorem sequence_guard_accepts_successor_below_max:
  "(1 \<le> sint (Sequence (PastMirror cur)) \<and> sint (Sequence (PastMirror cur)) < 2 ^ 63 - 1 \<longrightarrow>
      (sequence_guard (Inr cur) inc = None \<longleftrightarrow>
         sint (Sequence (PastMirror inc)) = sint (Sequence (PastMirror cur)) + 1)
      \<and> (sint (Sequence (PastMirror inc)) \<noteq> sint (Sequence (PastMirror cur)) + 1 \<longrightarrow>
           (\<exists>want. sequence_guard (Inr cur) inc
                      = Some (SequenceError want (Sequence (PastMirror inc)))
                    \<and> sint want = sint (Sequence (PastMirror cur)) + 1)))
   \<and> (errors_Is err ErrMetadataNotExist \<longrightarrow>
        (sequence_guard (Inl err) inc = None \<longleftrightarrow> sint (Sequence (PastMirror inc)) = 1)
        \<and> (sint (Sequence (PastMirror inc)) \<noteq> 1 \<longrightarrow>
             (\<exists>want. sequence_guard (Inl err) inc
                        = Some (SequenceError want (Sequence (PastMirror inc)))
                      \<and> sint want = 1)))"
proof (intro conjI impI)
  assume b: "1 \<le> sint (Sequence (PastMirror cur)) \<and> sint (Sequence (PastMirror cur)) < 2 ^ 63 - 1"
  then have s: "sint (Sequence (PastMirror cur) + 1) = sint (Sequence (PastMirror cur)) + 1"
    by (simp add: sint_succ)
  then have e: "Sequence (PastMirror inc) = Sequence (PastMirror cur) + 1 \<longleftrightarrow>
      sint (Sequence (PastMirror inc)) = sint (Sequence (PastMirror cur)) + 1"
    by (simp add: word_eq_iff_signed [where ?'a = int])
  from e show "sequence_guard (Inr cur) inc = None \<longleftrightarrow>
           sint (Sequence (PastMirror inc)) = sint (Sequence (PastMirror cur)) + 1"
    by (simp add: sequence_guard_def Let_def)
  assume "sint (Sequence (PastMirror inc)) \<noteq> sint (Sequence (PastMirror cur)) + 1"
  with e have "Sequence (PastMirror inc) \<noteq> Sequence (PastMirror cur) + 1" by simp
  then have "sequence_guard (Inr cur) inc
      = Some (SequenceError (Sequence (PastMirror cur) + 1) (Sequence (PastMirror inc)))"
    by (simp add: sequence_guard_def Let_def)
  with s show "\<exists>want. sequence_guard (Inr cur) inc
                      = Some (SequenceError want (Sequence (PastMirror inc)))
                    \<and> sint want = sint (Sequence (PastMirror cur)) + 1"
    by blast
next
  assume n: "errors_Is err ErrMetadataNotExist"
  have e: "Sequence (PastMirror inc) = 1 \<longleftrightarrow> sint (Sequence (PastMirror inc)) = 1"
    by (simp add: word_eq_iff_signed [where ?'a = int])
  from n e show "sequence_guard (Inl err) inc = None \<longleftrightarrow> sint (Sequence (PastMirror inc)) = 1"
    by (simp add: sequence_guard_def Let_def)
  assume "sint (Sequence (PastMirror inc)) \<noteq> 1"
  with e have "Sequence (PastMirror inc) \<noteq> 1" by simp
  with n have "sequence_guard (Inl err) inc
      = Some (SequenceError 1 (Sequence (PastMirror inc)))"
    by (simp add: sequence_guard_def Let_def)
  then show "\<exists>want. sequence_guard (Inl err) inc
                        = Some (SequenceError want (Sequence (PastMirror inc)))
                      \<and> sint want = 1"
    by simp
qed

theorem sequence_guard_accepts_successor_below_max_witness:
  "sequence_guard (Inr (meta_seq ''u'' 1)) (meta_seq ''u'' 2) = None
   \<and> sequence_guard (Inr (meta_seq ''u'' 1)) (meta_seq ''u'' 1) = Some (SequenceError 2 1)
   \<and> sequence_guard (Inl ErrMetadataNotExist) (meta_seq ''u'' 1) = None
   \<and> sequence_guard (Inl ErrMetadataNotExist) (meta_seq ''u'' 3) = Some (SequenceError 1 3)"
  using sequence_guard_accepts_successor_below_max [of "meta_seq ''u'' 1" "meta_seq ''u'' 2" ErrMetadataNotExist]
    sequence_guard_accepts_successor_below_max [of "meta_seq ''u'' 1" "meta_seq ''u'' 1" ErrMetadataNotExist]
    sequence_guard_accepts_successor_below_max [of "meta_seq ''u'' 1" "meta_seq ''u'' 3" ErrMetadataNotExist]
  by (auto simp add: meta_seq_def word_eq_iff_signed [where ?'a = int])

text \<open>
  At the largest \<open>int\<close> the sum \<open>currRun.Sequence + 1\<close> of lines 161 and 162 wraps around:
  with \<open>N = 2 ^ 63 - 1\<close> the guard lets the incoming sequence \<open>- 2 ^ 63\<close> pass, which is not the
  integer \<open>N + 1\<close>, and the sequence error it gives for the incoming sequence 5 wants
  \<open>- 2 ^ 63\<close>.
\<close>

theorem sequence_guard_wraps_at_largest_int:
  "1 \<le> sint (Sequence (PastMirror (meta_seq ''u'' 0x7FFFFFFFFFFFFFFF)))
   \<and> sequence_guard (Inr (meta_seq ''u'' 0x7FFFFFFFFFFFFFFF)) (meta_seq ''u'' 0x8000000000000000)
       = None
   \<and> sint (Sequence (PastMirror (meta_seq ''u'' 0x8000000000000000)))
       \<noteq> sint (Sequence (PastMirror (meta_seq ''u'' 0x7FFFFFFFFFFFFFFF))) + 1
   \<and> sint (Sequence (PastMirror (meta_seq ''u'' 0x8000000000000000))) = - (2 ^ 63)
   \<and> sequence_guard (Inr (meta_seq ''u'' 0x7FFFFFFFFFFFFFFF)) (meta_seq ''u'' 5)
       = Some (SequenceError 0x8000000000000000 5)"
  by (simp add: sequence_guard_def meta_seq_def Let_def)

section \<open>Properties of the registry backend\<close>

text \<open>
  C5. The libraries never return the sentinel of this package. Then \<open>exists\<close> returns
  \<open>ErrMetadataNotExist\<close> exactly when the manifest request fails with a transport error of
  status 404, or with one of status 401 while the reference parses and the check of the
  push permission succeeds. Every other error is returned as it is: the error of the
  manifest request with another status or of another kind, the error of the parse, and the
  error of the check of the push permission; without an error \<open>exists\<close> returns none.
\<close>

theorem registryBackend_exists_not_exist_iff:
  assumes "crane_Manifest E (Exact E (Ref (src b))) w \<noteq> Some ErrMetadataNotExist"
    and "fault E (CallNameParseReference (Exact E (Ref (src b))) (insecure b))
           \<noteq> Some ErrMetadataNotExist"
    and "fault E (CallCheckPushPermission (Exact E (Ref (src b)))) \<noteq> Some ErrMetadataNotExist"
  shows "(registryBackend_exists E b w = Some ErrMetadataNotExist \<longleftrightarrow>
            (\<exists>e. crane_Manifest E (Exact E (Ref (src b))) w = Some e \<and>
               (errors_As_transport e = Some 404 \<or>
                errors_As_transport e = Some 401 \<and>
                fault E (CallNameParseReference (Exact E (Ref (src b))) (insecure b)) = None \<and>
                fault E (CallCheckPushPermission (Exact E (Ref (src b)))) = None)))
       \<and> (\<forall>e. crane_Manifest E (Exact E (Ref (src b))) w = Some e \<longrightarrow>
              errors_As_transport e \<noteq> Some 404 \<longrightarrow> errors_As_transport e \<noteq> Some 401 \<longrightarrow>
              registryBackend_exists E b w = Some e)
       \<and> (\<forall>e pe. crane_Manifest E (Exact E (Ref (src b))) w = Some e \<longrightarrow>
              errors_As_transport e = Some 401 \<longrightarrow>
              fault E (CallNameParseReference (Exact E (Ref (src b))) (insecure b)) = Some pe \<longrightarrow>
              registryBackend_exists E b w = Some pe)
       \<and> (\<forall>e ce. crane_Manifest E (Exact E (Ref (src b))) w = Some e \<longrightarrow>
              errors_As_transport e = Some 401 \<longrightarrow>
              fault E (CallNameParseReference (Exact E (Ref (src b))) (insecure b)) = None \<longrightarrow>
              fault E (CallCheckPushPermission (Exact E (Ref (src b)))) = Some ce \<longrightarrow>
              registryBackend_exists E b w = Some ce)
       \<and> (crane_Manifest E (Exact E (Ref (src b))) w = None \<longrightarrow>
              registryBackend_exists E b w = None)"
  using assms
  by (auto simp: registryBackend_exists_def split: option.splits)

theorem registryBackend_exists_not_exist_iff_witness:
  "crane_Manifest env_401 (Exact env_401 (Ref (src backend0))) world0
     = Some (TransportError 401)
   \<and> registryBackend_exists env_401 backend0 world0 = Some ErrMetadataNotExist"
proof -
  have r: "Exact env_401 (Ref (src backend0)) = ''meta:latest''"
    by (simp add: env_401_def env0_def exact0_def backend0_def zero_DockerImageReference_def)
  have m: "crane_Manifest env_401 ''meta:latest'' world0 = Some (TransportError 401)"
    by (simp add: crane_Manifest_def env_401_def env0_def)
  have p: "fault env_401 (CallNameParseReference ''meta:latest'' (insecure backend0)) = None"
    by (simp add: env_401_def env0_def)
  have c: "fault env_401 (CallCheckPushPermission ''meta:latest'') = None"
    by (simp add: env_401_def env0_def)
  show ?thesis
    using registryBackend_exists_not_exist_iff [of env_401 backend0 world0] r m p c
    by auto
qed

section \<open>Properties of the path functions\<close>

lemma split_sep_nonempty [simp]: "split_sep s \<noteq> []"
  by (induction s) (auto split: list.splits)
























section \<open>Properties of the layer loop\<close>

lemma path_blobs_l: "filepath_Join [''blobs'', ''sha256:l''] = ''blobs/sha256:l''"
  by (simp add: path_defs Let_def)

lemma path_image_dir: "filepath_Join [''d/t/ti'', ''v2'', ''img''] = ''d/t/ti/v2/img''"
  by (simp add: path_defs Let_def)

lemma path_image_blob:
  "filepath_Join [''d/t/ti/v2/img'', ''blobs/sha256:l''] = ''d/t/ti/v2/img/blobs/sha256:l''"
  by (simp add: path_defs Let_def)

lemma missingLayers_append_lookup:
  "map_of (missingLayers_append k v m) k
     = Some ((case map_of m k of None \<Rightarrow> [] | Some ps \<Rightarrow> ps) @ [v])"
  by (induction m) auto


text \<open>
  C7. When \<open>unpack\<close> of \<open>blobs/L\<close> fails with an error that is \<open>os.ErrNotExist\<close> or an
  \<open>ErrArchiveFileNotFound\<close>, the round of the layer loop appends the destination blob path
  to the entry of \<open>L\<close> in \<open>missingLayers\<close> and leaves \<open>errs\<close> as it is; with any other error
  it appends the error, wrapped, to \<open>errs\<close> and leaves \<open>missingLayers\<close> as it is. In both
  cases the loop goes on with the next layer.
\<close>

theorem layer_step_records_missing_layer:
  assumes "unpack E (filepath_Join [''blobs'', L]) (filepath_Join [unpackDir, ''v2'', Path assoc])
             (filesInArchive C) w = (Some err, w1)"
  shows "(errors_Is err ErrNotExist \<or> errors_As_ArchiveFileNotFound err \<longrightarrow>
            layer_step E C imageName unpackDir assoc L (missingLayers, errs0, w)
              = (missingLayers_append L
                   (filepath_Join [filepath_Join [unpackDir, ''v2'', Path assoc],
                                   filepath_Join [''blobs'', L]]) missingLayers, errs0, w1)
            \<and> map_of (fst (layer_step E C imageName unpackDir assoc L (missingLayers, errs0, w))) L
              = Some ((case map_of missingLayers L of None \<Rightarrow> [] | Some ps \<Rightarrow> ps)
                      @ [filepath_Join [filepath_Join [unpackDir, ''v2'', Path assoc],
                                        filepath_Join [''blobs'', L]]]))
       \<and> (\<not> (errors_Is err ErrNotExist \<or> errors_As_ArchiveFileNotFound err) \<longrightarrow>
            layer_step E C imageName unpackDir assoc L (missingLayers, errs0, w)
              = (missingLayers,
                 errs0 @ [ErrorfV ''accessing image %q blob %q at %s: %v''
                            [imageName, L, filepath_Join [''blobs'', L]] err], w1))
       \<and> fold (layer_step E C imageName unpackDir assoc) (L # rest) (missingLayers, errs0, w)
           = fold (layer_step E C imageName unpackDir assoc) rest
               (layer_step E C imageName unpackDir assoc L (missingLayers, errs0, w))"
  using assms
  by (simp add: layer_step_def Let_def missingLayers_append_lookup)


theorem layer_step_records_missing_layer_witness:
  "layer_step (env0 [] Map.empty) (ctx0 Map.empty zero_Metadata zero_Metadata []) ''img:latest''
      ''d/t/ti'' assoc0 ''sha256:l'' ([], [], world0)
     = ([(''sha256:l'', [''d/t/ti/v2/img/blobs/sha256:l''])], [], world0)
   \<and> layer_step env_corrupt
        (ctx0 [''blobs/sha256:l'' \<mapsto> ''a.tar''] zero_Metadata zero_Metadata [])
        ''img:latest'' ''d/t/ti'' assoc0 ''sha256:l'' ([], [], world0)
     = ([], [ErrorfV ''accessing image %q blob %q at %s: %v''
               [''img:latest'', ''sha256:l'', ''blobs/sha256:l''] (LibError ''corrupt'')], world0)"
proof -
  have p: "Path assoc0 = ''img''" by (simp add: assoc0_def)
  have h1: "unpack (env0 [] Map.empty) (filepath_Join [''blobs'', ''sha256:l''])
              (filepath_Join [''d/t/ti'', ''v2'', Path assoc0])
              (filesInArchive (ctx0 Map.empty zero_Metadata zero_Metadata [])) world0
            = (Some (ErrArchiveFileNotFound ''blobs/sha256:l''), world0)"
    by (simp add: unpack_def ctx0_def path_blobs_l)
  have h2: "unpack env_corrupt (filepath_Join [''blobs'', ''sha256:l''])
              (filepath_Join [''d/t/ti'', ''v2'', Path assoc0])
              (filesInArchive (ctx0 [''blobs/sha256:l'' \<mapsto> ''a.tar''] zero_Metadata zero_Metadata []))
              world0
            = (Some (LibError ''corrupt''), world0)"
    by (simp add: unpack_def ctx0_def path_blobs_l path_image_dir p archive_Extract_def env_corrupt_def env0_def)
  show ?thesis
    using layer_step_records_missing_layer [OF h1, of "''img:latest''" "[]" "[]" "[]"]
      layer_step_records_missing_layer [OF h2, of "''img:latest''" "[]" "[]" "[]"]
    by (simp add: path_blobs_l path_image_dir path_image_blob p)
qed


section \<open>Properties of the blob lookup\<close>

lemma find_append: "find P (xs @ ys) = (case find P xs of Some x \<Rightarrow> Some x | None \<Rightarrow> find P ys)"
  by (induction xs) auto

lemma find_map: "find P (map f xs) = map_option f (find (P \<circ> f) xs)"
  by (induction xs) auto

lemma find_layer_owner_find:
  "find_layer_owner as L = find (\<lambda>p. L \<in> set (LayerDigests (snd p))) (associations_of as)"
proof (induction as)
  case Nil
  then show ?case by (simp add: associations_of_def)
next
  case (Cons g rest)
  have "find (\<lambda>p. L \<in> set (LayerDigests (snd p))) (map (\<lambda>e. (fst g, snd e)) (snd g))
        = map_option (\<lambda>a. (fst g, a)) (find (\<lambda>a. L \<in> set (LayerDigests a)) (map snd (snd g)))"
    by (simp add: find_map comp_def option.map_comp)
  with Cons show ?case
    by (simp add: associations_of_def find_append split: option.splits)
qed

lemma findBlobRepo_found:
  "findBlobRepo E o' asSet L =
     (case find (\<lambda>p. L \<in> set (LayerDigests (snd p))) (associations_of asSet) of
        None \<Rightarrow> (zero_TypedImageReference,
                  Some (Errorf ''layer %q is not present in previous metadata'' [L]))
      | Some p \<Rightarrow>
          if fst p = [] then (zero_TypedImageReference,
                  Some (Errorf ''layer %q is not present in previous metadata'' [L]))
          else (\<lparr>RefType = RefType (fst (ParseReference E (fst p))),
                 Ref = (Ref (fst (ParseReference E (fst p))))
                   \<lparr>Registry := ToMirror o',
                    Namespace := path_Join [UserNamespace o',
                                            Namespace (Ref (fst (ParseReference E (fst p))))]\<rparr>\<rparr>,
                snd (ParseReference E (fst p))))"
  by (simp add: findBlobRepo_def GetImageFromBlob_def find_layer_owner_find [symmetric]
      Let_def split: option.splits prod.splits)

lemma set_range_missingLayers: "set (range_missingLayers E m) = set m"
  by (simp add: range_missingLayers_def Let_def)

lemma fetchBlobs_step_errs_prefix:
  "\<exists>more. fst (fetchBlobs_step E o' asSet x acc) = fst acc @ more"
  by (cases acc) (auto simp: fetchBlobs_step_def Let_def split: prod.splits option.splits)

lemma fold_fetchBlobs_step_errs_prefix:
  "\<exists>more. fst (fold (fetchBlobs_step E o' asSet) xs acc) = fst acc @ more"
proof (induction xs arbitrary: acc)
  case Nil
  then show ?case by simp
next
  case (Cons x xs)
  obtain m1 where m1: "fst (fetchBlobs_step E o' asSet x acc) = fst acc @ m1"
    using fetchBlobs_step_errs_prefix by blast
  obtain m2 where "fst (fold (fetchBlobs_step E o' asSet) xs (fetchBlobs_step E o' asSet x acc))
      = fst (fetchBlobs_step E o' asSet x acc) @ m2"
    using Cons.IH by blast
  with m1 show ?case by simp
qed

lemma fetchBlobs_step_not_found:
  assumes "GetImageFromBlob asSet L = []"
  shows "fetchBlobs_step E o' asSet (L, dsts) (errs0, w) =
     (case fetchBlob E o' zero_DockerImageReference L dsts w of
        (Some e, w1) \<Rightarrow> (errs0 @ [lookup_failure L, ErrorfV ''layer %s: %v'' [L] e], w1)
      | (None, w1) \<Rightarrow> (errs0 @ [lookup_failure L], w1))"
  using assms
  by (simp add: fetchBlobs_step_def findBlobRepo_def zero_TypedImageReference_def
      lookup_failure_def split: prod.splits option.splits)

lemma fold_fetchBlobs_step_lookup_failure:
  assumes "(L, dsts) \<in> set xs" and "GetImageFromBlob asSet L = []"
  shows "\<exists>wk. lookup_failure L \<in> set (fst (fold (fetchBlobs_step E o' asSet) xs acc))
     \<and> (\<forall>e wk'. fetchBlob E o' zero_DockerImageReference L dsts wk = (Some e, wk') \<longrightarrow>
           ErrorfV ''layer %s: %v'' [L] e
             \<in> set (fst (fold (fetchBlobs_step E o' asSet) xs acc)))"
  using assms(1)
proof (induction xs arbitrary: acc)
  case Nil
  then show ?case by simp
next
  case (Cons x xs)
  show ?case
  proof (cases "x = (L, dsts)")
    case True
    let ?acc1 = "fetchBlobs_step E o' asSet x acc"
    obtain more where more:
      "fst (fold (fetchBlobs_step E o' asSet) xs ?acc1) = fst ?acc1 @ more"
      using fold_fetchBlobs_step_errs_prefix by blast
    have a: "lookup_failure L \<in> set (fst ?acc1)"
      using True fetchBlobs_step_not_found [OF assms(2), of E o' dsts "fst acc" "snd acc"]
      by (auto split: prod.splits option.splits)
    have b: "\<forall>e wk'. fetchBlob E o' zero_DockerImageReference L dsts (snd acc) = (Some e, wk')
        \<longrightarrow> ErrorfV ''layer %s: %v'' [L] e \<in> set (fst ?acc1)"
      using True fetchBlobs_step_not_found [OF assms(2), of E o' dsts "fst acc" "snd acc"]
      by (auto split: prod.splits option.splits)
    from a b more show ?thesis
      by (intro exI [of _ "snd acc"]) auto
  next
    case False
    with Cons.prems have "(L, dsts) \<in> set xs" by simp
    from Cons.IH [OF this] show ?thesis by simp
  qed
qed

lemma fold_fetchBlobs_step_at:
  assumes "GetImageFromBlob asSet L = []"
  shows "\<exists>es_post w'.
     fold (fetchBlobs_step E o' asSet) (pre @ (L, dsts) # post) acc
       = (fst (fold (fetchBlobs_step E o' asSet) pre acc)
            @ lookup_failure L
            # (case fst (fetchBlob E o' zero_DockerImageReference L dsts
                           (snd (fold (fetchBlobs_step E o' asSet) pre acc))) of
                 Some e \<Rightarrow> [ErrorfV ''layer %s: %v'' [L] e]
               | None \<Rightarrow> [])
            @ es_post, w')"
proof -
  let ?a = "fold (fetchBlobs_step E o' asSet) pre acc"
  let ?b = "fetchBlobs_step E o' asSet (L, dsts) ?a"
  have b: "fst ?b = fst ?a @ lookup_failure L
            # (case fst (fetchBlob E o' zero_DockerImageReference L dsts (snd ?a)) of
                 Some e \<Rightarrow> [ErrorfV ''layer %s: %v'' [L] e]
               | None \<Rightarrow> [])"
    using fetchBlobs_step_not_found [OF assms, of E o' dsts "fst ?a" "snd ?a"]
    by (auto split: prod.splits option.splits)
  obtain m where m: "fst (fold (fetchBlobs_step E o' asSet) post ?b) = fst ?b @ m"
    using fold_fetchBlobs_step_errs_prefix by blast
  have "fold (fetchBlobs_step E o' asSet) (pre @ (L, dsts) # post) acc
      = fold (fetchBlobs_step E o' asSet) post ?b"
    by simp
  with b m show ?thesis
    by (intro exI [of _ m] exI [of _ "snd (fold (fetchBlobs_step E o' asSet) post ?b)"])
      (simp add: prod_eq_iff)
qed

lemma NewAggregate_Some: "es \<noteq> [] \<Longrightarrow> NewAggregate es = Some (Aggregate es)"
  by (simp add: NewAggregate_def)

lemma fetchBlobs_lookup_failure:
  assumes "fault E (CallNewContext (SkipVerification o')) = None"
    and "ConvertToAssociationSet E (PastAssociations meta) = Inr asSet"
    and "(L, dsts) \<in> set missing"
    and "GetImageFromBlob asSet L = []"
  shows "\<exists>es w1 wk. fetchBlobs E o' meta missing w = (Some (Aggregate es), w1)
     \<and> lookup_failure L \<in> set es
     \<and> (\<forall>e wk'. fetchBlob E o' zero_DockerImageReference L dsts wk = (Some e, wk') \<longrightarrow>
           ErrorfV ''layer %s: %v'' [L] e \<in> set es)"
proof -
  let ?r = "fold (fetchBlobs_step E o' asSet) (range_missingLayers E missing) ([], w)"
  have "(L, dsts) \<in> set (range_missingLayers E missing)"
    using assms(3) by (simp add: set_range_missingLayers)
  from fold_fetchBlobs_step_lookup_failure [OF this assms(4), of E o' "([], w)"]
  obtain wk where wk: "lookup_failure L \<in> set (fst ?r)"
    "\<forall>e wk'. fetchBlob E o' zero_DockerImageReference L dsts wk = (Some e, wk') \<longrightarrow>
           ErrorfV ''layer %s: %v'' [L] e \<in> set (fst ?r)"
    by blast
  then have ne: "fst ?r \<noteq> []" by auto
  have "fetchBlobs E o' meta missing w = (Some (Aggregate (fst ?r)), snd ?r)"
    using assms(1,2) ne
    by (cases ?r) (simp add: fetchBlobs_def NewAggregate_Some)
  with wk show ?thesis by blast
qed

section \<open>What a run leaves untouched\<close>

lemma quiet_refl [simp]: "quiet w w"
  by (simp add: quiet_def)

lemma quiet_trans: "quiet w w1 \<Longrightarrow> quiet w1 w2 \<Longrightarrow> quiet w w2"
  by (auto simp: quiet_def)

lemma quiet_fs [simp]: "quiet w (w\<lparr>fs := f\<rparr>)"
  by (simp add: quiet_def)

lemma quiet_fs_ntemp [simp]: "quiet w (w\<lparr>fs := f, ntemp := n\<rparr>)"
  by (simp add: quiet_def)

lemma quiet_mktempDir: "mktempDir E d w = (r, w') \<Longrightarrow> quiet w w'"
  by (auto simp: mktempDir_def Let_def split: option.splits)



lemma quiet_archive_Unarchive: "archive_Unarchive E a d ex w = (r, w') \<Longrightarrow> quiet w w'"
  by (auto simp: archive_Unarchive_def split: option.splits node.splits)


lemma quiet_unpackImageSet_walk: "unpackImageSet_walk E d ex ps w = (r, w') \<Longrightarrow> quiet w w'"
proof (induction ps arbitrary: w)
  case Nil
  then show ?case by simp
next
  case (Cons p ps)
  then show ?case
    by (auto simp: Let_def split: option.splits prod.splits if_splits
        dest!: quiet_archive_Unarchive intro: quiet_trans)
qed

lemma quiet_unpackImageSet: "unpackImageSet E o' d w = (r, w') \<Longrightarrow> quiet w w'"
  by (auto simp: unpackImageSet_def Let_def split: option.splits if_splits
      dest: quiet_archive_Unarchive quiet_unpackImageSet_walk)

lemma quiet_Publish_open: "Publish_open E o' w = (r, w', t) \<Longrightarrow> quiet w w'"
  by (auto simp: Publish_open_def Let_def
      split: option.splits if_splits prod.splits sum.splits
      dest!: quiet_mktempDir quiet_unpackImageSet intro: quiet_trans)





























section \<open>Properties of the association loop\<close>

lemma assoc_loop_append:
  "assoc_loop E C n ud (xs @ ys) acc =
     (case assoc_loop E C n ud xs acc of
        (Some err, acc1) \<Rightarrow> (Some err, acc1)
      | (None, acc1) \<Rightarrow> assoc_loop E C n ud ys acc1)"
  by (induction xs arbitrary: acc) (auto split: prod.splits option.splits)

lemma image_loop_append:
  "image_loop E C (xs @ ys) st =
     (case image_loop E C xs st of
        (Some err, st1) \<Rightarrow> (Some err, st1)
      | (None, st1) \<Rightarrow> image_loop E C ys st1)"
  by (induction xs arbitrary: st) (auto split: prod.splits option.splits)

lemma process_assoc_lookup_failure:
  assumes asm: "assemble_assoc E L imageName unpackDir assoc acc = Inr (missing, mm1, st1)"
    and mem: "(layerDigest, dsts) \<in> set missing"
    and ctx: "fault E (CallNewContext (SkipVerification (opts L))) = None"
    and conv: "ConvertToAssociationSet E (PastAssociations (currentMeta L)) = Inr asSet"
    and none: "find (\<lambda>p. layerDigest \<in> set (LayerDigests (snd p))) (associations_of asSet) = None"
  shows "\<exists>es w5. process_assoc E L imageName unpackDir assoc acc
                    = (Some (Aggregate es), mm1, st1\<lparr>wld := w5\<rparr>)
                 \<and> lookup_failure layerDigest \<in> set es"
proof -
  have g: "GetImageFromBlob asSet layerDigest = []"
    using none by (simp add: GetImageFromBlob_def find_layer_owner_find)
  from fetchBlobs_lookup_failure [OF ctx conv mem g, of "wld st1"]
  obtain es w5 where f: "fetchBlobs E (opts L) (currentMeta L) missing (wld st1)
      = (Some (Aggregate es), w5)" and l: "lookup_failure layerDigest \<in> set es"
    by blast
  have "missing \<noteq> []" using mem by auto
  then have "process_assoc E L imageName unpackDir assoc acc
      = (Some (Aggregate es), mm1, st1\<lparr>wld := w5\<rparr>)"
    using asm f by (simp add: process_assoc_def)
  with l show ?thesis by blast
qed

lemma TypedImageReference_Ref_update:
  "(r::TypedImageReference)\<lparr>Ref := x\<rparr> = \<lparr>RefType = RefType r, Ref = x\<rparr>"
  by (cases r) simp

lemma DockerImageReference_updates:
  "(d::DockerImageReference)\<lparr>RefName := n, Tag := t, RefID := i, Namespace := ns\<rparr>
     = \<lparr>Registry = Registry d, Namespace = ns, RefName = n, Tag = t, RefID = i\<rparr>"
  by (cases d) simp

lemma assemble_assoc_allMappings:
  "(case assemble_assoc E L imageName unpackDir assoc (mm, st) of
      Inl x \<Rightarrow> allMappings (snd x) = allMappings st
    | Inr y \<Rightarrow>
        allMappings (snd (snd y)) =
          (if Name assoc = imageName
           then TypedImageMapping_Add (allMappings st) (fst (ParseReference E imageName))
             \<lparr>RefType = RefType (toMirrorRef L),
              Ref = \<lparr>Registry = Registry (Ref (toMirrorRef L)),
                     Namespace = path_Join [UserNamespace (opts L),
                        Namespace (Ref (fst (ParseReference E (''file://'' @ Path assoc))))],
                     RefName = RefName (Ref (fst (ParseReference E (''file://'' @ Path assoc)))),
                     Tag = (if TagSymlink assoc \<noteq> [] then TagSymlink assoc
                            else Tag (Ref (fst (ParseReference E (''file://'' @ Path assoc))))),
                     RefID = ID assoc\<rparr>\<rparr>
             (Type assoc)
           else allMappings st))"
  unfolding assemble_assoc_def Let_def
  by (auto simp: TypedImageReference_Ref_update DockerImageReference_updates
      split: prod.splits option.splits sum.splits if_splits)

section \<open>What the per-image loop leaves in the layout\<close>

lemma keeps_refl [simp]: "keeps w w"
  by (simp add: keeps_def)





lemma keeps_log [simp]: "keeps w (w\<lparr>log := l\<rparr>)"
  by (simp add: keeps_def)































section \<open>Writing and reading metadata\<close>

lemma valid_MetadataD:
  "valid_Metadata E M \<Longrightarrow> json_Marshal E M = Inr data \<Longrightarrow> json_Unmarshal E data = Inr M"
  by (simp add: valid_Metadata_def)

lemma map_of_fs_write_same [simp]: "map_of (fs_write p n files) p = Some n"
  by (simp add: fs_write_def)

lemma map_of_filter_neq: "q \<noteq> p \<Longrightarrow> map_of (filter (\<lambda>e. fst e \<noteq> p) files) q = map_of files q"
  by (induction files) auto

lemma map_of_filter_same [simp]: "map_of (filter (\<lambda>e. fst e \<noteq> p) files) p = None"
  by (induction files) auto

lemma map_of_fs_write_other: "q \<noteq> p \<Longrightarrow> map_of (fs_write p n files) q = map_of files q"
  by (simp add: fs_write_def map_of_filter_neq)

lemma local_write_read:
  assumes v: "valid_Metadata E M"
    and wr: "localDirBackend_WriteMetadata E b M path w = (None, w1)"
    and rd: "localDirBackend_ReadMetadata E b path w1 = Inr M'"
  shows "M' = M"
proof -
  from wr obtain data where d: "json_Marshal E M = Inr data"
    and w1: "w1 = w\<lparr>fs := fs_write (filepath_Join [dir b, path]) (File data) (fs w)\<rparr>"
    by (auto simp: localDirBackend_WriteMetadata_def localDirBackend_WriteObject_def
        object_data_def Let_def split: sum.splits option.splits)
  from rd w1 have "json_Unmarshal E data = Inr M'"
    by (auto simp: localDirBackend_ReadMetadata_def Let_def split: option.splits)
  with valid_MetadataD [OF v d] show ?thesis by simp
qed

lemma registry_write_image:
  assumes wr: "registryBackend_WriteMetadata E b M path w = (None, w1)"
  shows "\<exists>data. json_Marshal E M = Inr data
     \<and> images w1 (Exact E (Ref (src b))) = Some [(path, File data)]"
  using wr
  by (auto simp: registryBackend_WriteMetadata_def registryBackend_WriteObject_def
      registryBackend_pushImage_def crane_Push_def crane_Image_def
      localDirBackend_WriteObject_def object_data_def Let_def
      split: sum.splits option.splits prod.splits)

lemma registry_unpack_file:
  assumes im: "images w (Exact E (Ref (src b))) = Some [(path, File data)]"
    and un: "registryBackend_unpack E b path w = (None, wu)"
  shows "map_of (fs wu) (filepath_Join [dir (localDirBackend b), path]) = None
     \<or> map_of (fs wu) (filepath_Join [dir (localDirBackend b), path]) = Some (File data)"
proof -
  let ?d = "dir (localDirBackend b)"
  let ?T = "filepath_Join [?d, RefName (Ref (src b)) @ ''.tar'']"
  let ?P = "filepath_Join [?d, path]"
  from un im have pl: "crane_Pull E (Exact E (Ref (src b))) w = Inr [(path, File data)]"
    by (auto simp: registryBackend_unpack_def crane_Pull_def Let_def
        split: sum.splits option.splits)
  from un pl obtain wa where gw: "registryBackend_GetWriter E b (RefName (Ref (src b)) @ ''.tar'') w
      = (None, wa)"
    by (auto simp: registryBackend_unpack_def Let_def split: prod.splits option.splits)
  from un pl gw obtain wb where ex: "crane_Export E [(path, File data)] ?T wa = (None, wb)"
    by (auto simp: registryBackend_unpack_def Let_def split: prod.splits option.splits)
  from un pl gw ex obtain wc where ua: "Tar_Unarchive E ?T ?d wb = (None, wc)"
    by (auto simp: registryBackend_unpack_def Let_def split: prod.splits option.splits)
  from un pl gw ex ua have wu: "wu = snd (localDirBackend_fs_Remove E (localDirBackend b)
      (RefName (Ref (src b)) @ ''.tar'') wc)"
    by (auto simp: registryBackend_unpack_def Let_def split: prod.splits option.splits)
  from ex have tb: "map_of (fs wb) ?T = Some (Archive [(path, File data)])"
    by (auto simp: crane_Export_def split: option.splits)
  from ua tb have "fs wc = fs_write ?P (File data) (fs wb)"
    by (auto simp: Tar_Unarchive_def archive_Unarchive_def write_entries_def
        split: option.splits)
  then have pc: "map_of (fs wc) ?P = Some (File data)" by simp
  show ?thesis
  proof (cases "?P = ?T")
    case True
    with wu pc show ?thesis
      by (auto simp: localDirBackend_fs_Remove_def Let_def split: option.splits)
  next
    case False
    with wu pc show ?thesis
      by (auto simp: localDirBackend_fs_Remove_def Let_def map_of_filter_neq
          split: option.splits)
  qed
qed

lemma registry_write_read:
  assumes v: "valid_Metadata E M"
    and wr: "registryBackend_WriteMetadata E b M path w = (None, w1)"
    and rd: "registryBackend_ReadMetadata E b path w1 = (Inr M', w2)"
  shows "M' = M"
proof -
  from registry_write_image [OF wr] obtain data where d: "json_Marshal E M = Inr data"
    and im: "images w1 (Exact E (Ref (src b))) = Some [(path, File data)]"
    by blast
  from rd have un: "registryBackend_unpack E b path w1 = (None, w2)"
    and lr: "localDirBackend_ReadMetadata E (localDirBackend b) path w2 = Inr M'"
    by (auto simp: registryBackend_ReadMetadata_def split: option.splits prod.splits)
  from registry_unpack_file [OF im un] lr have "json_Unmarshal E data = Inr M'"
    by (auto simp: localDirBackend_ReadMetadata_def Let_def split: option.splits)
  with valid_MetadataD [OF v d] show ?thesis by simp
qed


lemma fs_exists_key: "map_of files p = Some n \<Longrightarrow> fs_exists files p"
  unfolding fs_exists_def list_ex_iff by (force dest!: map_of_SomeD)

lemma local_write_read_succeeds:
  assumes v: "valid_Metadata E M" and nf: "\<forall>c. fault E c = None"
  shows "\<exists>w1. localDirBackend_WriteMetadata E b M path w = (None, w1)
     \<and> localDirBackend_ReadMetadata E b path w1 = Inr M"
proof -
  from v obtain data where d: "json_Marshal E M = Inr data" and u: "json_Unmarshal E data = Inr M"
    by (auto simp: valid_Metadata_def split: sum.splits)
  show ?thesis
    using d u nf
    by (simp add: localDirBackend_WriteMetadata_def localDirBackend_WriteObject_def
        object_data_def localDirBackend_ReadMetadata_def Let_def)
qed

lemma localDirBackend_ReadMetadata_log [simp]:
  "localDirBackend_ReadMetadata E b path (w\<lparr>log := l\<rparr>) = localDirBackend_ReadMetadata E b path w"
  by (simp add: localDirBackend_ReadMetadata_def Let_def split: option.splits)

section \<open>The backend of a run and the guard\<close>

lemma Publish_open_registry:
  assumes op: "Publish_open E o' w = (Inr P, w1, t)" and su: "\<not> SingleUse (incomingMeta P)"
  shows "\<exists>rb. backend P = RegistryBackend rb
     \<and> src rb = metadata_image_ref E (opts P) (Uid (incomingMeta P))"
  using op su
  by (auto simp: Publish_open_def Let_def ByConfig_def NewRegistryBackend_def
      metadata_image_ref_def
      split: option.splits if_splits prod.splits sum.splits)

lemma Publish_guard_rejects:
  assumes op: "Publish_open E o' w = (Inr P, w1, t)"
    and rd: "Backend_ReadMetadata E (backend P) (MetadataBasePath E) w1 = (current, w2)"
    and g: "sequence_guard current (incomingMeta P) = Some err"
  shows "fst (Publish E o' w) = (Map.empty, Some err)"
  using op rd g
  by (simp add: Publish_def Publish_body_def Publish_run_loop_def Publish_prepare_def
      split: prod.splits)

lemma sequence_guard_not_exist:
  "sequence_guard (Inl ErrMetadataNotExist) inc
     = (if Sequence (PastMirror inc) = 1 then None
        else Some (SequenceError 1 (Sequence (PastMirror inc))))"
  by (simp add: sequence_guard_def Let_def)

lemma Publish_registry_first_run:
  assumes op: "Publish_open E o' w = (Inr P, w1, t)"
    and b: "backend P = RegistryBackend rb"
    and nf: "fault E (CallCraneManifest (Exact E (Ref (src rb)))) = None"
    and ni: "images w (Exact E (Ref (src rb))) = None"
  shows "fst (Backend_ReadMetadata E (backend P) (MetadataBasePath E) w1)
              = Inl ErrMetadataNotExist"
    and "Sequence (PastMirror (incomingMeta P)) \<noteq> 1 \<Longrightarrow>
               fst (Publish E o' w)
                 = (Map.empty, Some (SequenceError 1 (Sequence (PastMirror (incomingMeta P)))))"
proof -
  have im: "images w1 = images w"
    using quiet_Publish_open [OF op] by (simp add: quiet_def)
  have ex: "registryBackend_exists E rb (w1\<lparr>log := log w1 @ [EvReadMetadata]\<rparr>)
        = Some ErrMetadataNotExist"
    using nf ni im by (simp add: registryBackend_exists_def crane_Manifest_def)
  then have rd: "Backend_ReadMetadata E (backend P) (MetadataBasePath E) w1
        = (Inl ErrMetadataNotExist, w1\<lparr>log := log w1 @ [EvReadMetadata]\<rparr>)"
    using b by (simp add: Backend_ReadMetadata_def registryBackend_ReadMetadata_def Let_def)
  then show "fst (Backend_ReadMetadata E (backend P) (MetadataBasePath E) w1)
              = Inl ErrMetadataNotExist" by simp
  assume n1: "Sequence (PastMirror (incomingMeta P)) \<noteq> 1"
  then have "sequence_guard (Inl ErrMetadataNotExist) (incomingMeta P)
      = Some (SequenceError 1 (Sequence (PastMirror (incomingMeta P))))"
    by (simp add: sequence_guard_not_exist)
  from Publish_guard_rejects [OF op rd this]
  show "fst (Publish E o' w)
      = (Map.empty, Some (SequenceError 1 (Sequence (PastMirror (incomingMeta P)))))" .
qed

lemma process_assoc_allMappings:
  "allMappings (snd (snd (process_assoc E L imageName unpackDir assoc (mm, st)))) =
     (case assemble_assoc E L imageName unpackDir assoc (mm, st) of
        Inl x \<Rightarrow> allMappings (snd x)
      | Inr y \<Rightarrow> allMappings (snd (snd y)))"
  by (auto simp: process_assoc_def split: sum.splits prod.splits option.splits)
section \<open>Fetching a layer that no earlier image owns\<close>

text \<open>
  C10. When the lookup of line 564 gives the empty string for a missing layer, \<open>findBlobRepo\<close>
  returns the zero reference with the error "not present in previous metadata", and the round
  of the loop of \<open>fetchBlobs\<close> for that layer appends the lookup failure to \<open>errs\<close> and
  still calls \<open>fetchBlob\<close> with the zero reference: when that call fails, its error is
  appended right after the lookup failure. The aggregate that \<open>fetchBlobs\<close> returns holds,
  after the errors of the layers visited before, the lookup failure followed by the error of
  that fetch, if it failed.
\<close>

theorem fetchBlobs_fetches_after_failed_lookup:
  assumes "GetImageFromBlob asSet layerDigest = []"
  shows "findBlobRepo E o' asSet layerDigest
       = (zero_TypedImageReference,
          Some (Errorf ''layer %q is not present in previous metadata'' [layerDigest]))
   \<and> fetchBlobs_step E o' asSet (layerDigest, dstBlobPaths) (errs0, w) =
     (case fetchBlob E o' zero_DockerImageReference layerDigest dstBlobPaths w of
        (Some e, w1) \<Rightarrow>
          (errs0 @ [lookup_failure layerDigest, ErrorfV ''layer %s: %v'' [layerDigest] e], w1)
      | (None, w1) \<Rightarrow> (errs0 @ [lookup_failure layerDigest], w1))
   \<and> (fault E (CallNewContext (SkipVerification o')) = None \<longrightarrow>
      ConvertToAssociationSet E (PastAssociations meta) = Inr asSet \<longrightarrow>
      range_missingLayers E missingLayers = pre @ (layerDigest, dstBlobPaths) # post \<longrightarrow>
      (\<exists>es_post w'.
         fetchBlobs E o' meta missingLayers w0
           = (Some (Aggregate
                (fst (fold (fetchBlobs_step E o' asSet) pre ([], w0))
                 @ lookup_failure layerDigest
                 # (case fst (fetchBlob E o' zero_DockerImageReference layerDigest dstBlobPaths
                                (snd (fold (fetchBlobs_step E o' asSet) pre ([], w0)))) of
                      Some e \<Rightarrow> [ErrorfV ''layer %s: %v'' [layerDigest] e]
                    | None \<Rightarrow> [])
                 @ es_post)), w')))"
proof (intro conjI impI)
  show "findBlobRepo E o' asSet layerDigest
       = (zero_TypedImageReference,
          Some (Errorf ''layer %q is not present in previous metadata'' [layerDigest]))"
    using assms by (simp add: findBlobRepo_def)
  show "fetchBlobs_step E o' asSet (layerDigest, dstBlobPaths) (errs0, w) =
     (case fetchBlob E o' zero_DockerImageReference layerDigest dstBlobPaths w of
        (Some e, w1) \<Rightarrow>
          (errs0 @ [lookup_failure layerDigest, ErrorfV ''layer %s: %v'' [layerDigest] e], w1)
      | (None, w1) \<Rightarrow> (errs0 @ [lookup_failure layerDigest], w1))"
    by (rule fetchBlobs_step_not_found [OF assms])
next
  assume c: "fault E (CallNewContext (SkipVerification o')) = None"
    and a: "ConvertToAssociationSet E (PastAssociations meta) = Inr asSet"
    and r: "range_missingLayers E missingLayers = pre @ (layerDigest, dstBlobPaths) # post"
  let ?A = "fst (fold (fetchBlobs_step E o' asSet) pre ([], w0))"
  let ?B = "case fst (fetchBlob E o' zero_DockerImageReference layerDigest dstBlobPaths
                                (snd (fold (fetchBlobs_step E o' asSet) pre ([], w0)))) of
                      Some e \<Rightarrow> [ErrorfV ''layer %s: %v'' [layerDigest] e]
                    | None \<Rightarrow> []"
  obtain es_post w' where f:
    "fold (fetchBlobs_step E o' asSet) (pre @ (layerDigest, dstBlobPaths) # post) ([], w0)
       = (?A @ lookup_failure layerDigest # ?B @ es_post, w')"
    using fold_fetchBlobs_step_at [OF assms, of E o' pre dstBlobPaths post "([], w0)"]
    by auto
  have "fetchBlobs E o' meta missingLayers w0
      = (Some (Aggregate (?A @ lookup_failure layerDigest # ?B @ es_post)), w')"
    using c a r f by (simp add: fetchBlobs_def NewAggregate_def)
  then show "\<exists>es_post w'.
         fetchBlobs E o' meta missingLayers w0
           = (Some (Aggregate (?A @ lookup_failure layerDigest # ?B @ es_post)), w')"
    by blast
qed

theorem fetchBlobs_fetches_after_failed_lookup_witness:
  "GetImageFromBlob [] ''sha256:l'' = []
   \<and> fetchBlobs env_norepo opts0 zero_Metadata
       [(''sha256:l'', [''d/t/ti/v2/img/blobs/sha256:l''])] world0
     = (Some (Aggregate
          [lookup_failure ''sha256:l'',
           ErrorfV ''layer %s: %v'' [''sha256:l'']
             (ErrorfV ''create repo for %s: %v'' ['':'']
                (LibError ''repository name required''))]), world0)"
proof -
  have g: "GetImageFromBlob [] ''sha256:l'' = []"
    by (simp add: GetImageFromBlob_def)
  have c: "fault env_norepo (CallNewContext (SkipVerification opts0)) = None"
    by (simp add: env_norepo_def env0_def)
  have a: "ConvertToAssociationSet env_norepo (PastAssociations zero_Metadata) = Inr []"
    by (simp add: ConvertToAssociationSet_def env_norepo_def env0_def zero_Metadata_def)
  have r: "range_missingLayers env_norepo [(''sha256:l'', [''d/t/ti/v2/img/blobs/sha256:l''])]
      = [] @ (''sha256:l'', [''d/t/ti/v2/img/blobs/sha256:l'']) # []"
    by (simp add: range_missingLayers_def env_norepo_def env0_def)
  have f: "fetchBlob env_norepo opts0 zero_DockerImageReference ''sha256:l''
             [''d/t/ti/v2/img/blobs/sha256:l''] world0
      = (Some (ErrorfV ''create repo for %s: %v'' ['':'']
                (LibError ''repository name required'')), world0)"
    by (simp add: fetchBlob_def env_norepo_def env0_def opts0_def exact0_def
        zero_DockerImageReference_def)
  have e0: "fetchBlobs env_norepo opts0 zero_Metadata
       [(''sha256:l'', [''d/t/ti/v2/img/blobs/sha256:l''])] world0
     = (Some (Aggregate
          [lookup_failure ''sha256:l'',
           ErrorfV ''layer %s: %v'' [''sha256:l'']
             (ErrorfV ''create repo for %s: %v'' ['':'']
                (LibError ''repository name required''))]), world0)"
    using c a r f
    by (simp add: fetchBlobs_def fetchBlobs_step_def findBlobRepo_def GetImageFromBlob_def
        Let_def zero_TypedImageReference_def NewAggregate_def lookup_failure_def)
  show ?thesis
    using fetchBlobs_fetches_after_failed_lookup [OF g, of env_norepo opts0
        "[''d/t/ti/v2/img/blobs/sha256:l'']" "[]" world0 zero_Metadata
        "[(''sha256:l'', [''d/t/ti/v2/img/blobs/sha256:l''])]" "[]" "[]" world0] g c a r f e0
    by simp
qed

section \<open>The blobs of an image after its associations are processed\<close>






section \<open>The end of a run whose images gave errors\<close>








end
